theory Spec2Isabelle
  imports Main "HOL-Library.Word"
begin

unbundle bit_operations_syntax

section \<open>Messages\<close>

text \<open>
  The tagged union \<open>Message\<close> of protocol/message.proto, with the variants of
  \<open>Message::PayloadCase\<close> that \<open>Machine::dispatcher\<close> switches on and the fields that
  Machine.cc reads or writes through their accessors. The schema file is not among the
  sources; the integer fields are modelled as \<open>int\<close>.
\<close>

type_synonym byte = "8 word"

datatype DeviceOS =
  DEVICE_OS_UOS | DEVICE_OS_LINUX | DEVICE_OS_WINDOWS | DEVICE_OS_MACOS | DEVICE_OS_ANDROID
  | DEVICE_OS_OTHER

datatype Compositor = COMPOSITOR_X11 | COMPOSITOR_WAYLAND | COMPOSITOR_NONE

datatype FlowDirection =
  FLOW_DIRECTION_TOP | FLOW_DIRECTION_BOTTOM | FLOW_DIRECTION_LEFT | FLOW_DIRECTION_RIGHT
  | FLOW_DIRECTION_UNRECOGNIZED

record DeviceInfo =
  di_uuid :: string
  di_name :: string
  di_os :: DeviceOS
  di_compositor :: Compositor

record PairRequest =
  preq_key :: string
  preq_deviceinfo :: DeviceInfo

record PairResponse =
  presp_key :: string
  presp_deviceinfo :: DeviceInfo
  presp_agree :: bool

record ServiceOnOffNotification =
  sharedclipboardon :: bool
  shareddeviceson :: bool

record DeviceSharingStartResponse =
  dss_accept :: bool

record InputEventRequest =
  ireq_serial :: int
  ireq_devicetype :: int
  ireq_type :: int
  ireq_code :: int
  ireq_value :: int

record InputEventResponse =
  iresp_serial :: int
  iresp_success :: bool

record FlowDirectionNtf =
  ntf_direction :: FlowDirection

record FlowRequest =
  flow_direction :: FlowDirection
  flow_x :: int
  flow_y :: int

record FsResponse =
  fs_accepted :: bool
  fs_port :: int

record FsSendFileRequest =
  sreq_serial :: int
  sreq_path :: string

record FsSendFileResponse =
  sresp_serial :: int
  sresp_accepted :: bool

record FsSendFileResult =
  sres_serial :: int
  sres_path :: string
  sres_result :: bool

record ClipboardNotify =
  cn_targets :: "string list"

record ClipboardGetContentRequest =
  creq_target :: string

record ClipboardGetContentResponse =
  cresp_target :: string
  cresp_content :: string

datatype Message =
  PAYLOAD_NOT_SET
  | kPairRequest PairRequest
  | kPairResponse PairResponse
  | kServiceOnOffNotification ServiceOnOffNotification
  | kDeviceSharingStartRequest
  | kDeviceSharingStartResponse DeviceSharingStartResponse
  | kDeviceSharingStopRequest
  | kDeviceSharingStopResponse
  | kInputEventRequest InputEventRequest
  | kInputEventResponse InputEventResponse
  | kFlowDirectionNtf FlowDirectionNtf
  | kFlowRequest FlowRequest
  | kFlowResponse
  | kFsRequest
  | kFsResponse FsResponse
  | kFsSendFileRequest FsSendFileRequest
  | kFsSendFileResponse FsSendFileResponse
  | kFsSendFileResult FsSendFileResult
  | kClipboardNotify ClipboardNotify
  | kClipboardGetContentRequest ClipboardGetContentRequest
  | kClipboardGetContentResponse ClipboardGetContentResponse

section \<open>Framed codec: utils/message_helper.h\<close>

subsection \<open>Byte order\<close>

text \<open>
  The memory image of an unsigned integer, least significant byte first, and the value
  such an image holds. \<open>host_bytes\<close> and \<open>host_word\<close> are the image of a
  \<open>uint64_t\<close> on the host (\<open>be\<close>: a big-endian host, where \<open>__BIG_ENDIAN__\<close> is
  set), which is what \<open>memcpy\<close> of the header writes and what \<open>peak\<close> reads.
\<close>

fun le_bytes :: "nat \<Rightarrow> 'a::len word \<Rightarrow> byte list" where
  "le_bytes 0 w = []"
| "le_bytes (Suc k) w = ucast w # le_bytes k (drop_bit 8 w)"

fun le_word :: "byte list \<Rightarrow> 'a::len word" where
  "le_word [] = 0"
| "le_word (b # bs) = ucast b OR push_bit 8 (le_word bs)"

definition host_bytes :: "bool \<Rightarrow> 64 word \<Rightarrow> byte list" where
  "host_bytes be w = (if be then rev (le_bytes 8 w) else le_bytes 8 w)"

definition host_word :: "bool \<Rightarrow> byte list \<Rightarrow> 64 word" where
  "host_word be bs = (if be then le_word (rev bs) else le_word bs)"

text \<open>
  \<open>htonl\<close> and \<open>ntohl\<close> of arpa/inet.h: the identity on a big-endian host, the
  reversal of the four bytes on a little-endian one.
\<close>

definition bswap32 :: "32 word \<Rightarrow> 32 word" where
  "bswap32 x =
     push_bit 24 (take_bit 8 x) OR push_bit 16 (take_bit 8 (drop_bit 8 x)) OR
     push_bit 8 (take_bit 8 (drop_bit 16 x)) OR drop_bit 24 x"

definition htonl :: "bool \<Rightarrow> 32 word \<Rightarrow> 32 word" where
  "htonl be x = (if be then x else bswap32 x)"

definition ntohl :: "bool \<Rightarrow> 32 word \<Rightarrow> 32 word" where
  "ntohl be x = (if be then x else bswap32 x)"

text \<open>
  The macros \<open>htonll\<close> and \<open>ntohll\<close>: \<open>(x)\<close> under \<open>__BIG_ENDIAN__\<close>, otherwise
  \<open>((uint64_t)htonl((x) & 0xFFFFFFFF) << 32) | htonl((x) >> 32)\<close>; the argument of
  \<open>htonl\<close> is converted to \<open>uint32_t\<close>.
\<close>

definition htonll :: "bool \<Rightarrow> 64 word \<Rightarrow> 64 word" where
  "htonll be x =
     (if be then x
      else push_bit 32 (ucast (htonl be (ucast (x AND 0xFFFFFFFF)))) OR
           ucast (htonl be (ucast (drop_bit 32 x))))"

definition ntohll :: "bool \<Rightarrow> 64 word \<Rightarrow> 64 word" where
  "ntohll be x =
     (if be then x
      else push_bit 32 (ucast (ntohl be (ucast (x AND 0xFFFFFFFF)))) OR
           ucast (ntohl be (ucast (drop_bit 32 x))))"

subsection \<open>The header\<close>

text \<open>\<open>static constexpr char MAGIC[] = "DDECPRT"\<close>: seven letters and the final NUL.\<close>

definition MAGIC :: "byte list" where
  "MAGIC = [0x44, 0x44, 0x45, 0x43, 0x50, 0x52, 0x54, 0x00]"

text \<open>
  \<open>struct MessageHeader\<close>, packed: \<open>char magic_[8]\<close> and \<open>uint64_t size_\<close>. The
  constructor stores \<open>htonll(size)\<close> and copies the magic; \<open>legal\<close> is the
  \<open>memcmp\<close> of the eight magic bytes; \<open>size()\<close> is \<open>ntohll(size_)\<close>.
\<close>

record MessageHeader =
  magic_field :: "byte list"
  size_field :: "64 word"

definition MessageHeader_ctor :: "bool \<Rightarrow> 64 word \<Rightarrow> MessageHeader" where
  "MessageHeader_ctor be sz = \<lparr>magic_field = MAGIC, size_field = htonll be sz\<rparr>"

definition legal :: "MessageHeader \<Rightarrow> bool" where
  "legal h \<longleftrightarrow> magic_field h = MAGIC"

definition MessageHeader_size :: "bool \<Rightarrow> MessageHeader \<Rightarrow> 64 word" where
  "MessageHeader_size be h = ntohll be (size_field h)"

definition header_size :: nat where
  "header_size = 16"

text \<open>The sixteen bytes that \<open>memcpy(buff.data(), &header, header_size)\<close> copies.\<close>

definition header_image :: "bool \<Rightarrow> MessageHeader \<Rightarrow> byte list" where
  "header_image be h = magic_field h @ host_bytes be (size_field h)"

subsection \<open>The read buffer\<close>

text \<open>
  Modelled from the spec: \<open>uvxx::Buffer\<close> (uvxx/Buffer.h is not among the sources), a
  growable byte buffer with \<open>peek<T>()\<close> (view the first \<open>sizeof(T)\<close> bytes as a POD
  header without consuming), \<open>retrieve(n)\<close> (consume a prefix), \<open>data()\<close>, \<open>size()\<close>
  and \<open>clear()\<close>. \<open>bytes\<close> are the readable bytes, \<open>size()\<close> of them; \<open>slack\<close> is
  what the storage holds behind them, which a \<open>peak\<close> on fewer readable bytes than the
  header has runs into.
\<close>

record Buffer =
  bytes :: "byte list"
  slack :: "byte list"

definition buf_size :: "Buffer \<Rightarrow> nat" where
  "buf_size b = length (bytes b)"

definition buf_data :: "Buffer \<Rightarrow> byte list" where
  "buf_data b = bytes b @ slack b"

definition peak :: "bool \<Rightarrow> Buffer \<Rightarrow> MessageHeader" where
  "peak be b =
     \<lparr>magic_field = take 8 (buf_data b),
      size_field = host_word be (take 8 (drop 8 (buf_data b)))\<rparr>"

definition retrieve :: "nat \<Rightarrow> Buffer \<Rightarrow> Buffer" where
  "retrieve n b = b\<lparr>bytes := drop n (bytes b)\<rparr>"

definition clear :: "Buffer \<Rightarrow> Buffer" where
  "clear b = b\<lparr>bytes := []\<rparr>"

subsection \<open>genMessage and parseMessage\<close>

datatype PARSE_ERROR = PARTIAL_MESSAGE | ILLEGAL_MESSAGE

text \<open>
  The conversion of the \<open>uint64_t\<close> length to the \<open>int\<close> that protobuf's
  \<open>ParseFromArray(const void *, int)\<close> takes: the low 32 bits, read as two's
  complement.
\<close>

definition to_int :: "64 word \<Rightarrow> int" where
  "to_int n = (let v = uint n mod 2 ^ 32 in if v < 2 ^ 31 then v else v - 2 ^ 32)"

text \<open>
  \<open>genMessage\<close>: a header for \<open>msg.ByteSizeLong()\<close>, then the serialised body. The
  protobuf serialiser \<open>ser\<close> is a parameter.
\<close>

definition genMessage :: "bool \<Rightarrow> ('m \<Rightarrow> byte list) \<Rightarrow> 'm \<Rightarrow> byte list" where
  "genMessage be ser msg =
     (let header = MessageHeader_ctor be (of_nat (length (ser msg)))
      in header_image be header @ ser msg)"

text \<open>
  \<open>parseMessage<T>\<close>. The result pairs what the function returns
  (\<open>tl::expected<T, PARSE_ERROR>\<close>, \<open>Inl\<close> the error) with the buffer it leaves. The sum
  \<open>header_size + header.size()\<close> is computed in \<open>uint64_t\<close> and wraps. The protobuf
  parser \<open>par\<close> is a parameter, total on byte strings (the result of
  \<open>ParseFromArray\<close> is ignored and the message returned as it stands); on a negative
  length the sources at hand define no result, which is \<open>None\<close>.
\<close>

definition parseMessage ::
  "bool \<Rightarrow> (byte list \<Rightarrow> 'm) \<Rightarrow> Buffer \<Rightarrow> ((PARSE_ERROR + 'm) \<times> Buffer) option" where
  "parseMessage be par buff =
     (let header = peak be buff in
      if \<not> legal header then Some (Inl ILLEGAL_MESSAGE, buff)
      else if buf_size buff < (header_size + unat (MessageHeader_size be header)) mod 2 ^ 64
      then Some (Inl PARTIAL_MESSAGE, buff)
      else if to_int (MessageHeader_size be header) < 0 then None
      else Some (Inr (par (take (nat (to_int (MessageHeader_size be header)))
                            (drop header_size (buf_data buff)))),
                 retrieve ((header_size + unat (MessageHeader_size be header)) mod 2 ^ 64) buff))"

subsection \<open>Facts about the byte order\<close>

lemma take_bit_split8:
  "take_bit (8 + m) (w::'a::len word) =
   ucast (ucast w :: byte) OR push_bit 8 (take_bit m (drop_bit 8 w))"
  by (rule bit_word_eqI) (auto simp add: bit_simps)

lemma le_word_le_bytes: "(le_word (le_bytes k w) :: 'a::len word) = take_bit (8 * k) w"
proof (induction k arbitrary: w)
  case 0
  show ?case by simp
next
  case (Suc k)
  have "8 * Suc k = 8 + 8 * k" by simp
  then show ?case using Suc by (simp add: take_bit_split8)
qed

lemma le_word_le_bytes64: "le_word (le_bytes 8 w) = (w :: 64 word)"
  by (simp only: le_word_le_bytes) (simp add: take_bit_word_eq_self)

lemma length_le_bytes: "length (le_bytes k w) = k"
  by (induction k arbitrary: w) simp_all

lemma host_word_host_bytes: "host_word be (host_bytes be w) = w"
  by (simp add: host_word_def host_bytes_def le_word_le_bytes64)

lemma length_host_bytes: "length (host_bytes be w) = 8"
  by (simp add: host_bytes_def length_le_bytes)

lemma bit32_out: "32 \<le> k \<Longrightarrow> \<not> bit (x :: 32 word) k"
  using bit_imp_le_length [of x k] by auto

lemma bswap32_bit: "n < 32 \<Longrightarrow> bit (bswap32 x) n = bit x (8 * (3 - n div 8) + n mod 8)"
proof -
  assume n: "n < 32"
  consider "n < 8" | "8 \<le> n" "n < 16" | "16 \<le> n" "n < 24" | "24 \<le> n" "n < 32"
    using n by linarith
  then show ?thesis
  proof cases
    case 1
    then have "n div 8 = 0" "n mod 8 = n" by simp_all
    with 1 show ?thesis by (simp add: bswap32_def bit_simps)
  next
    case 2
    then have "n div 8 = 1" "n mod 8 = n - 8" "n - 8 < 8"
      by (simp_all add: div_nat_eqI mod_if)
    with 2 show ?thesis by (simp add: bswap32_def bit_simps bit32_out)
  next
    case 3
    then have "n div 8 = 2" "n mod 8 = n - 16" "n - 16 < 8" "\<not> n - 8 < 8"
      by (simp_all add: div_nat_eqI mod_if)
    with 3 show ?thesis by (simp add: bswap32_def bit_simps bit32_out)
  next
    case 4
    then have "n div 8 = 3" "n mod 8 = n - 24" "n - 24 < 8" "\<not> n - 8 < 8" "\<not> n - 16 < 8"
      by (simp_all add: div_nat_eqI mod_if)
    with 4 show ?thesis by (simp add: bswap32_def bit_simps bit32_out)
  qed
qed

lemma bswap32_bswap32: "bswap32 (bswap32 x) = x"
proof (rule bit_word_eqI)
  fix n
  assume "n < LENGTH(32)"
  then have n: "n < 32" by simp
  have m: "8 * (3 - n div 8) + n mod 8 < 32"
  proof -
    have "n mod 8 < 8" by simp
    moreover have "3 - n div 8 \<le> 3" by simp
    ultimately show ?thesis by linarith
  qed
  have d: "(8 * (3 - n div 8) + n mod 8) div 8 = 3 - n div 8" by simp
  have e: "(8 * (3 - n div 8) + n mod 8) mod 8 = n mod 8" by simp
  have f: "n div 8 \<le> 3" using n by simp
  have "bit (bswap32 (bswap32 x)) n = bit x (8 * (3 - (3 - n div 8)) + n mod 8)"
    by (simp only: bswap32_bit [OF n] bswap32_bit [OF m] d e)
  also have "8 * (3 - (3 - n div 8)) + n mod 8 = n" using f by simp
  finally show "bit (bswap32 (bswap32 x)) n = bit x n" .
qed

lemma mask32_numeral: "(0xFFFFFFFF :: 64 word) = mask 32"
  by (simp add: mask_eq_exp_minus_1)

lemma halves_hi:
  "ucast (drop_bit 32 (push_bit 32 (ucast a) OR ucast (b :: 32 word) :: 64 word)) = (a :: 32 word)"
proof (rule bit_word_eqI)
  fix n
  assume "n < LENGTH(32)"
  then have n: "n < 32" by simp
  have "\<not> bit b (32 + n)" by (rule bit32_out) simp
  with n show "bit (ucast (drop_bit 32 (push_bit 32 (ucast a) OR ucast b :: 64 word)) :: 32 word) n
      = bit a n"
    by (simp add: bit_simps)
qed

lemma halves_lo:
  "ucast ((push_bit 32 (ucast (a :: 32 word)) OR ucast b :: 64 word) AND mask 32) = (b :: 32 word)"
  by (rule bit_word_eqI) (auto simp add: bit_simps)

lemma halves_join:
  "push_bit 32 (ucast (ucast (drop_bit 32 x) :: 32 word)) OR
   ucast (ucast (x AND mask 32) :: 32 word) = (x :: 64 word)"
proof (rule bit_word_eqI)
  fix n
  assume n: "n < LENGTH(64)"
  show "bit (push_bit 32 (ucast (ucast (drop_bit 32 x) :: 32 word)) OR
             ucast (ucast (x AND mask 32) :: 32 word) :: 64 word) n = bit x n"
  proof (cases "n < 32")
    case True
    then show ?thesis by (simp add: bit_simps)
  next
    case False
    with n have "n - 32 < 32" "32 \<le> n" by simp_all
    with False n show ?thesis by (simp add: bit_simps)
  qed
qed

lemma ntohll_htonll: "ntohll be (htonll be x) = x"
proof (cases be)
  case True
  then show ?thesis by (simp add: ntohll_def htonll_def)
next
  case False
  define lo :: "32 word" where "lo = ucast (x AND mask 32)"
  define hi :: "32 word" where "hi = ucast (drop_bit 32 x)"
  define y :: "64 word" where "y = push_bit 32 (ucast (bswap32 lo)) OR ucast (bswap32 hi)"
  have h: "htonll be x = y"
    using False by (simp only: htonll_def htonl_def mask32_numeral y_def lo_def hi_def if_False)
  have l: "ucast (y AND mask 32) = bswap32 hi"
    unfolding y_def by (rule halves_lo)
  have u: "ucast (drop_bit 32 y) = bswap32 lo"
    unfolding y_def by (rule halves_hi)
  have "ntohll be y = push_bit 32 (ucast (bswap32 (ucast (y AND mask 32)))) OR
      ucast (bswap32 (ucast (drop_bit 32 y)))"
    using False by (simp only: ntohll_def ntohl_def mask32_numeral if_False)
  also have "\<dots> = push_bit 32 (ucast hi) OR ucast lo"
    by (simp only: l u bswap32_bswap32)
  also have "\<dots> = x"
    unfolding lo_def hi_def by (rule halves_join)
  finally show ?thesis by (simp only: h)
qed

subsection \<open>Facts about the codec\<close>

lemma length_MAGIC: "length MAGIC = 8"
  by (simp add: MAGIC_def)

lemma length_header_image: "length (header_image be (MessageHeader_ctor be n)) = 16"
  by (simp add: header_image_def MessageHeader_ctor_def length_MAGIC length_host_bytes)

text \<open>
  On either host the eight length bytes of the header image are the length in network
  byte order, most significant byte first.
\<close>

lemma le_bytes_nth: "i < k \<Longrightarrow> le_bytes k w ! i = ucast (drop_bit (8 * i) w)"
proof (induction k arbitrary: w i)
  case 0
  then show ?case by simp
next
  case (Suc k)
  show ?case
  proof (cases i)
    case 0
    then show ?thesis by simp
  next
    case (Suc j)
    with Suc.prems have "j < k" by simp
    from Suc.IH [OF this, of "drop_bit 8 w"] Suc show ?thesis
      by (simp add: drop_bit_drop_bit add.commute)
  qed
qed

lemma htonll_bit:
  assumes "k < 64"
  shows "bit (htonll False x) k = bit x (8 * (7 - k div 8) + k mod 8)"
proof (cases "k < 32")
  case True
  then have d: "k div 8 \<le> 3" by simp
  have m: "8 * (3 - k div 8) + k mod 8 < 32"
  proof -
    have "k mod 8 < 8" by simp
    moreover have "3 - k div 8 \<le> 3" by simp
    ultimately show ?thesis by linarith
  qed
  have "bit (htonll False x) k = bit (bswap32 (ucast (drop_bit 32 x))) k"
    using True by (simp add: htonll_def htonl_def bit_simps)
  also have "\<dots> = bit (ucast (drop_bit 32 x) :: 32 word) (8 * (3 - k div 8) + k mod 8)"
    using True by (rule bswap32_bit)
  also have "\<dots> = bit x (32 + (8 * (3 - k div 8) + k mod 8))"
    using m by (simp add: bit_simps)
  also have "32 + (8 * (3 - k div 8) + k mod 8) = 8 * (7 - k div 8) + k mod 8"
    using d by simp
  finally show ?thesis .
next
  case False
  define j where "j = k - 32"
  have k: "k = 32 + j" and j: "j < 32" using False assms by (simp_all add: j_def)
  have d: "j div 8 \<le> 3" using j by simp
  have m: "8 * (3 - j div 8) + j mod 8 < 32"
  proof -
    have "j mod 8 < 8" by simp
    moreover have "3 - j div 8 \<le> 3" by simp
    ultimately show ?thesis by linarith
  qed
  have "bit (htonll False x) k = bit (bswap32 (ucast (x AND mask 32))) j"
    unfolding k using j by (simp add: htonll_def htonl_def mask32_numeral bit_simps bit32_out)
  also have "\<dots> = bit (ucast (x AND mask 32) :: 32 word) (8 * (3 - j div 8) + j mod 8)"
    using j by (rule bswap32_bit)
  also have "\<dots> = bit x (8 * (3 - j div 8) + j mod 8)"
    using m by (simp add: bit_simps)
  also have "8 * (3 - j div 8) + j mod 8 = 8 * (7 - k div 8) + k mod 8"
  proof -
    have "k div 8 = 4 + j div 8" "k mod 8 = j mod 8" unfolding k by presburger+
    then show ?thesis using d by simp
  qed
  finally show ?thesis .
qed

lemma le_bytes8_htonll: "le_bytes 8 (htonll False x) = rev (le_bytes 8 x)"
proof (rule nth_equalityI)
  show "length (le_bytes 8 (htonll False x)) = length (rev (le_bytes 8 x))"
    by (simp add: length_le_bytes)
next
  fix i
  assume "i < length (le_bytes 8 (htonll False x))"
  then have i: "i < 8" by (simp add: length_le_bytes)
  then have r: "7 - i < 8" by simp
  have "rev (le_bytes 8 x) ! i = le_bytes 8 x ! (7 - i)"
    using i by (simp add: rev_nth length_le_bytes)
  also have "\<dots> = ucast (drop_bit (8 * (7 - i)) x)"
    using r by (rule le_bytes_nth)
  finally have rhs: "rev (le_bytes 8 x) ! i = ucast (drop_bit (8 * (7 - i)) x)" .
  have lhs: "le_bytes 8 (htonll False x) ! i = ucast (drop_bit (8 * i) (htonll False x))"
    using i by (rule le_bytes_nth)
  have "(ucast (drop_bit (8 * i) (htonll False x)) :: byte) = ucast (drop_bit (8 * (7 - i)) x)"
  proof (rule bit_word_eqI)
    fix n
    assume "n < LENGTH(8)"
    then have n: "n < 8" by simp
    have k: "8 * i + n < 64" using i n by simp
    have dv: "(8 * i + n) div 8 = i" "(8 * i + n) mod 8 = n" using n by simp_all
    have "bit (ucast (drop_bit (8 * i) (htonll False x)) :: byte) n
        = bit (htonll False x) (8 * i + n)"
      using n by (simp add: bit_simps)
    also have "\<dots> = bit x (8 * (7 - i) + n)"
      using htonll_bit [OF k, of x] by (simp only: dv)
    also have "\<dots> = bit (ucast (drop_bit (8 * (7 - i)) x) :: byte) n"
      using n by (simp add: bit_simps)
    finally show "bit (ucast (drop_bit (8 * i) (htonll False x)) :: byte) n
        = bit (ucast (drop_bit (8 * (7 - i)) x) :: byte) n" .
  qed
  with lhs rhs show "le_bytes 8 (htonll False x) ! i = rev (le_bytes 8 x) ! i" by simp
qed

lemma header_image_network_order:
  "header_image be (MessageHeader_ctor be n) = MAGIC @ rev (le_bytes 8 n)"
proof (cases be)
  case True
  then show ?thesis
    by (simp add: header_image_def MessageHeader_ctor_def host_bytes_def htonll_def)
next
  case False
  then have "host_bytes be (htonll be n) = le_bytes 8 (htonll False n)"
    by (simp add: host_bytes_def)
  then show ?thesis
    by (simp add: header_image_def MessageHeader_ctor_def le_bytes8_htonll)
qed

lemma peak_header_image:
  "peak be (b\<lparr>bytes := header_image be (MessageHeader_ctor be n) @ rest\<rparr>)
   = MessageHeader_ctor be n"
  by (simp add: peak_def buf_data_def header_image_def MessageHeader_ctor_def length_MAGIC
      length_host_bytes host_word_host_bytes)

lemma to_int_small: "unat n < 2 ^ 31 \<Longrightarrow> to_int n = int (unat n)"
proof -
  assume a: "unat n < 2 ^ 31"
  have u: "uint n = int (unat n)" by simp
  have "int (unat n) < int (2 ^ 31)"
    using a by (rule iffD2 [OF of_nat_less_iff])
  then have b: "int (unat n) < 2 ^ 31" by simp
  have c: "0 \<le> int (unat n)" by simp
  have d: "int (unat n) mod 2 ^ 32 = int (unat n)"
    using b c by (intro mod_pos_pos_trivial) simp_all
  show ?thesis
    unfolding to_int_def Let_def u d using b by simp
qed

lemma parseMessage_genMessage:
  assumes r: "par (ser m) = m" and l: "length (ser m) < 2 ^ 31"
  shows "parseMessage be par (b\<lparr>bytes := genMessage be ser m @ rest\<rparr>)
         = Some (Inr m, b\<lparr>bytes := rest\<rparr>)"
proof -
  let ?n = "of_nat (length (ser m)) :: 64 word"
  let ?h = "MessageHeader_ctor be ?n"
  let ?b = "b\<lparr>bytes := genMessage be ser m @ rest\<rparr>"
  have g: "genMessage be ser m = header_image be ?h @ ser m"
    by (simp add: genMessage_def Let_def)
  have p: "peak be ?b = ?h"
    unfolding g
    using peak_header_image [where be = be and b = b and n = "?n" and rest = "ser m @ rest"]
    by simp
  have lg: "legal ?h"
    by (simp add: legal_def MessageHeader_ctor_def)
  have hl: "MessageHeader_size be ?h = ?n"
    by (simp add: MessageHeader_size_def MessageHeader_ctor_def ntohll_htonll)
  have "length (ser m) < 2 ^ 64"
    using l by (rule less_trans) simp
  then have un: "unat ?n = length (ser m)"
    by (simp add: unat_of_nat)
  have ti: "to_int ?n = int (length (ser m))"
    using to_int_small [of ?n] l un by simp
  have sm: "(header_size + length (ser m)) mod 2 ^ 64 = 16 + length (ser m)"
    using l by (simp add: header_size_def)
  have sz: "buf_size ?b = 16 + length (ser m) + length rest"
    by (simp add: buf_size_def g length_header_image)
  have bd: "take (length (ser m)) (drop header_size (buf_data ?b)) = ser m"
    by (simp add: buf_data_def g header_size_def length_header_image)
  have rt: "retrieve (16 + length (ser m)) ?b = b\<lparr>bytes := rest\<rparr>"
    by (simp add: retrieve_def g length_header_image)
  show ?thesis
    unfolding parseMessage_def Let_def p hl un ti sm
    using lg sz bd rt r by simp
qed

text \<open>
  C1 (frame round-trip). For every message \<open>m\<close> that protobuf serialises to fewer than
  \<open>2^31\<close> bytes (the sizes \<open>SerializeToArray\<close> and \<open>ParseFromArray\<close> take are
  \<open>int\<close>) and parses back from its own serialisation, \<open>parseMessage\<close> on a buffer
  holding exactly \<open>genMessage m\<close> returns \<open>m\<close> and leaves the buffer empty, on either
  host byte order; and \<open>genMessage m\<close> is the magic, the length of the body in network
  byte order and the body.
\<close>

theorem frame_round_trip:
  assumes "par (ser m) = m" and "length (ser m) < 2 ^ 31"
  shows "parseMessage be par \<lparr>bytes = genMessage be ser m, slack = s\<rparr>
         = Some (Inr m, \<lparr>bytes = [], slack = s\<rparr>)
    \<and> genMessage be ser m
         = MAGIC @ rev (le_bytes 8 (word_of_nat (length (ser m)) :: 64 word)) @ ser m"
proof
  have "parseMessage be par (\<lparr>bytes = [], slack = s\<rparr>\<lparr>bytes := genMessage be ser m @ []\<rparr>)
      = Some (Inr m, \<lparr>bytes = [], slack = s\<rparr>\<lparr>bytes := []\<rparr>)"
    using assms by (rule parseMessage_genMessage)
  then show "parseMessage be par \<lparr>bytes = genMessage be ser m, slack = s\<rparr>
         = Some (Inr m, \<lparr>bytes = [], slack = s\<rparr>)"
    by simp
  show "genMessage be ser m
         = MAGIC @ rev (le_bytes 8 (word_of_nat (length (ser m)) :: 64 word)) @ ser m"
    by (simp add: genMessage_def Let_def header_image_network_order)
qed

theorem frame_round_trip_witness:
  "parseMessage False (\<lambda>bs. if bs = [] then PAYLOAD_NOT_SET else kDeviceSharingStopRequest)
        \<lparr>bytes = genMessage False (\<lambda>m. if m = PAYLOAD_NOT_SET then [] else [0x2A, 0x00])
           kDeviceSharingStopRequest, slack = []\<rparr>
     = Some (Inr kDeviceSharingStopRequest, \<lparr>bytes = [], slack = []\<rparr>)
   \<and> genMessage False (\<lambda>m. if m = PAYLOAD_NOT_SET then [] else [0x2A, 0x00])
        kDeviceSharingStopRequest
     = [0x44, 0x44, 0x45, 0x43, 0x50, 0x52, 0x54, 0x00, 0, 0, 0, 0, 0, 0, 0, 2, 0x2A, 0x00]"
proof -
  let ?par = "\<lambda>bs :: byte list. if bs = [] then PAYLOAD_NOT_SET else kDeviceSharingStopRequest"
  let ?ser = "\<lambda>m. if m = PAYLOAD_NOT_SET then [] else [0x2A, 0x00 :: byte]"
  have r: "?par (?ser kDeviceSharingStopRequest) = kDeviceSharingStopRequest" by simp
  have l: "length (?ser kDeviceSharingStopRequest) < 2 ^ 31" by simp
  have e: "rev (le_bytes 8 (2 :: 64 word)) = [0, 0, 0, 0, 0, 0, 0, 2]" by code_simp
  note t = frame_round_trip [where par = ?par and ser = ?ser and be = False and s = "[]"
      and m = kDeviceSharingStopRequest]
  from t r l have a: "parseMessage False ?par
        \<lparr>bytes = genMessage False ?ser kDeviceSharingStopRequest, slack = []\<rparr>
      = Some (Inr kDeviceSharingStopRequest, \<lparr>bytes = [], slack = []\<rparr>)"
    and b: "genMessage False ?ser kDeviceSharingStopRequest
      = MAGIC @ rev (le_bytes 8 (word_of_nat (length (?ser kDeviceSharingStopRequest)) :: 64 word))
          @ ?ser kDeviceSharingStopRequest"
    by blast+
  from b e have "genMessage False ?ser kDeviceSharingStopRequest
      = [0x44, 0x44, 0x45, 0x43, 0x50, 0x52, 0x54, 0x00, 0, 0, 0, 0, 0, 0, 0, 2, 0x2A, 0x00]"
    by (simp add: MAGIC_def)
  with a show ?thesis by blast
qed

text \<open>The body length that the header at the front of the buffer announces.\<close>

definition announced_length :: "bool \<Rightarrow> Buffer \<Rightarrow> nat" where
  "announced_length be b = unat (MessageHeader_size be (peak be b))"

lemma legal_peak:
  "8 \<le> buf_size b \<Longrightarrow> legal (peak be b) \<longleftrightarrow> take 8 (bytes b) = MAGIC"
  by (simp add: legal_def peak_def buf_data_def buf_size_def)

lemma parseMessage_error_unconsumed:
  "parseMessage be par b = Some (Inl e, b') \<Longrightarrow> b' = b"
  by (simp add: parseMessage_def Let_def split: if_splits)

text \<open>
  Eight readable bytes that are not the magic are ILLEGAL whatever follows them. A length
  field of \<open>2^64 - 16\<close> makes \<open>header_size + header.size()\<close> wrap to \<open>0\<close>: the
  size check passes on a buffer that holds the header only, and the body parser is called
  with the length \<open>-16\<close>.
\<close>

lemma parseMessage_illegal:
  "8 \<le> buf_size b \<Longrightarrow> take 8 (bytes b) \<noteq> MAGIC \<Longrightarrow>
   parseMessage be par b = Some (Inl ILLEGAL_MESSAGE, b)"
  by (simp add: parseMessage_def Let_def legal_def peak_def buf_data_def buf_size_def)

lemma parseMessage_wrapped_length:
  "parseMessage False par
     \<lparr>bytes = MAGIC @ [0xFF, 0xFF, 0xFF, 0xFF, 0xFF, 0xFF, 0xFF, 0xF0], slack = []\<rparr> = None"
proof -
  let ?b = "\<lparr>bytes = MAGIC @ [0xFF, 0xFF, 0xFF, 0xFF, 0xFF, 0xFF, 0xFF, 0xF0 :: byte], slack = []\<rparr>"
  have p: "peak False ?b = \<lparr>magic_field = MAGIC, size_field = 0xF0FFFFFFFFFFFFFF\<rparr>"
    by (simp add: peak_def buf_data_def MAGIC_def host_word_def)
  have s: "MessageHeader_size False \<lparr>magic_field = MAGIC, size_field = 0xF0FFFFFFFFFFFFFF\<rparr>
      = 0xFFFFFFFFFFFFFFF0"
    by code_simp
  have u: "unat (0xFFFFFFFFFFFFFFF0 :: 64 word) = 18446744073709551600" by simp
  have t: "to_int (0xFFFFFFFFFFFFFFF0 :: 64 word) = - 16"
    by (simp add: to_int_def Let_def)
  show ?thesis
    unfolding parseMessage_def Let_def p s u t
    by (simp add: legal_def header_size_def buf_size_def)
qed

text \<open>
  C2, as amended. On a buffer that holds at least the sixteen bytes of a header,
  \<open>parseMessage\<close> returns ILLEGAL when the first eight bytes are not the magic; with the
  magic in place it returns PARTIAL when the buffer holds fewer than header + length bytes
  (for a length with which that sum does not wrap around \<open>2^64\<close>), and for a length
  below \<open>2^31\<close> and a buffer that holds the whole frame it parses the body of that
  length, consumes exactly header + length bytes and returns the message. Whenever it
  returns an error, the buffer is the one it was given. The check for fewer than sixteen
  bytes is not made by \<open>parseMessage\<close>; the loop of \<open>Machine::dispatcher\<close> makes it.
\<close>

theorem parseMessage_cases:
  assumes "header_size \<le> buf_size b"
  shows "(take 8 (bytes b) \<noteq> MAGIC \<longrightarrow> parseMessage be par b = Some (Inl ILLEGAL_MESSAGE, b))
    \<and> (take 8 (bytes b) = MAGIC \<and> header_size + announced_length be b < 2 ^ 64
        \<and> buf_size b < header_size + announced_length be b
       \<longrightarrow> parseMessage be par b = Some (Inl PARTIAL_MESSAGE, b))
    \<and> (take 8 (bytes b) = MAGIC \<and> announced_length be b < 2 ^ 31
        \<and> header_size + announced_length be b \<le> buf_size b
       \<longrightarrow> parseMessage be par b =
           Some (Inr (par (take (announced_length be b) (drop header_size (bytes b)))),
                 b\<lparr>bytes := drop (header_size + announced_length be b) (bytes b)\<rparr>))
    \<and> (\<forall>e b'. parseMessage be par b = Some (Inl e, b') \<longrightarrow> b' = b)"
proof (intro conjI impI allI)
  have l8: "8 \<le> buf_size b" using assms by (simp add: header_size_def)
  note lg = legal_peak [OF l8, of be]
  {
    assume "take 8 (bytes b) \<noteq> MAGIC"
    then show "parseMessage be par b = Some (Inl ILLEGAL_MESSAGE, b)"
      by (simp add: parseMessage_def Let_def lg)
  }
  {
    assume a: "take 8 (bytes b) = MAGIC \<and> header_size + announced_length be b < 2 ^ 64
        \<and> buf_size b < header_size + announced_length be b"
    then have "(header_size + unat (MessageHeader_size be (peak be b))) mod 2 ^ 64
        = header_size + announced_length be b"
      by (simp add: announced_length_def)
    with a show "parseMessage be par b = Some (Inl PARTIAL_MESSAGE, b)"
      by (simp add: parseMessage_def Let_def lg)
  }
  {
    assume a: "take 8 (bytes b) = MAGIC \<and> announced_length be b < 2 ^ 31
        \<and> header_size + announced_length be b \<le> buf_size b"
    let ?n = "announced_length be b"
    have n: "unat (MessageHeader_size be (peak be b)) = ?n" by (simp add: announced_length_def)
    have "?n < 2 ^ 31" using a by simp
    then have ti: "to_int (MessageHeader_size be (peak be b)) = int ?n"
      using to_int_small [of "MessageHeader_size be (peak be b)"] n by simp
    have "header_size + ?n < 16 + 2 ^ 31" using \<open>?n < 2 ^ 31\<close> by (simp add: header_size_def)
    also have "\<dots> < (2 :: nat) ^ 64" by simp
    finally have m: "(header_size + ?n) mod 2 ^ 64 = header_size + ?n" by simp
    have le: "header_size + ?n \<le> length (bytes b)" using a by (simp add: buf_size_def)
    have bd: "take ?n (drop header_size (buf_data b)) = take ?n (drop header_size (bytes b))"
      using le by (simp add: buf_data_def)
    show "parseMessage be par b =
           Some (Inr (par (take ?n (drop header_size (bytes b)))),
                 b\<lparr>bytes := drop (header_size + ?n) (bytes b)\<rparr>)"
      unfolding parseMessage_def Let_def n ti m
      using a lg bd by (simp add: retrieve_def)
  }
  {
    fix e b' assume "parseMessage be par b = Some (Inl e, b')"
    then show "b' = b" by (rule parseMessage_error_unconsumed)
  }
qed

text \<open>
  C2 as stated fails: on a buffer of eight bytes that are not the magic, fewer than a
  header, \<open>parseMessage\<close> returns ILLEGAL and not PARTIAL (whatever lies behind the
  readable bytes: \<open>legal\<close> compares the first eight bytes only).
\<close>

theorem parseMessage_short_buffer_counterexample:
  "buf_size \<lparr>bytes = [1, 2, 3, 4, 5, 6, 7, 8], slack = [0, 0, 0, 0, 0, 0, 0, 0]\<rparr> < header_size
   \<and> parseMessage False (\<lambda>bs. PAYLOAD_NOT_SET)
       \<lparr>bytes = [1, 2, 3, 4, 5, 6, 7, 8], slack = [0, 0, 0, 0, 0, 0, 0, 0]\<rparr>
     = Some (Inl ILLEGAL_MESSAGE,
         \<lparr>bytes = [1, 2, 3, 4, 5, 6, 7, 8], slack = [0, 0, 0, 0, 0, 0, 0, 0]\<rparr>)"
  by (simp add: buf_size_def header_size_def parseMessage_def Let_def legal_def peak_def
      buf_data_def MAGIC_def)

theorem parseMessage_cases_witness:
  "parseMessage False (\<lambda>bs. if bs = [] then PAYLOAD_NOT_SET else kDeviceSharingStopRequest)
     \<lparr>bytes = [0x44, 0x44, 0x45, 0x43, 0x50, 0x52, 0x54, 0x21, 0, 0, 0, 0, 0, 0, 0, 0], slack = []\<rparr>
   = Some (Inl ILLEGAL_MESSAGE,
       \<lparr>bytes = [0x44, 0x44, 0x45, 0x43, 0x50, 0x52, 0x54, 0x21, 0, 0, 0, 0, 0, 0, 0, 0],
        slack = []\<rparr>)
   \<and> parseMessage False (\<lambda>bs. if bs = [] then PAYLOAD_NOT_SET else kDeviceSharingStopRequest)
       \<lparr>bytes = MAGIC @ [0, 0, 0, 0, 0, 0, 0, 5] @ [0x2A, 0x00], slack = []\<rparr>
     = Some (Inl PARTIAL_MESSAGE,
         \<lparr>bytes = MAGIC @ [0, 0, 0, 0, 0, 0, 0, 5] @ [0x2A, 0x00], slack = []\<rparr>)
   \<and> parseMessage False (\<lambda>bs. if bs = [] then PAYLOAD_NOT_SET else kDeviceSharingStopRequest)
       \<lparr>bytes = MAGIC @ [0, 0, 0, 0, 0, 0, 0, 2] @ [0x2A, 0x00] @ [0x44], slack = []\<rparr>
     = Some (Inr kDeviceSharingStopRequest, \<lparr>bytes = [0x44], slack = []\<rparr>)"
proof -
  let ?par = "\<lambda>bs :: byte list. if bs = [] then PAYLOAD_NOT_SET else kDeviceSharingStopRequest"
  let ?b1 = "\<lparr>bytes = [0x44, 0x44, 0x45, 0x43, 0x50, 0x52, 0x54, 0x21, 0, 0, 0, 0, 0, 0, 0, 0],
             slack = []\<rparr>"
  let ?b2 = "\<lparr>bytes = MAGIC @ [0, 0, 0, 0, 0, 0, 0, 5] @ [0x2A, 0x00], slack = []\<rparr>"
  let ?b3 = "\<lparr>bytes = MAGIC @ [0, 0, 0, 0, 0, 0, 0, 2] @ [0x2A, 0x00] @ [0x44], slack = []\<rparr>"
  have s1: "header_size \<le> buf_size ?b1" by (simp add: header_size_def buf_size_def)
  have s2: "header_size \<le> buf_size ?b2" by (simp add: header_size_def buf_size_def MAGIC_def)
  have s3: "header_size \<le> buf_size ?b3" by (simp add: header_size_def buf_size_def MAGIC_def)
  have l2: "announced_length False ?b2 = 5"
    by (simp add: announced_length_def MessageHeader_size_def peak_def buf_data_def MAGIC_def
        host_word_def ntohll_def ntohl_def bswap32_def)
  have l3: "announced_length False ?b3 = 2"
    by (simp add: announced_length_def MessageHeader_size_def peak_def buf_data_def MAGIC_def
        host_word_def ntohll_def ntohl_def bswap32_def)
  note c1 = parseMessage_cases [OF s1, where be = False and par = ?par]
  note c2 = parseMessage_cases [OF s2, where be = False and par = ?par]
  note c3 = parseMessage_cases [OF s3, where be = False and par = ?par]
  have r1: "parseMessage False ?par ?b1 = Some (Inl ILLEGAL_MESSAGE, ?b1)"
    using c1 by (simp add: MAGIC_def)
  have r2: "parseMessage False ?par ?b2 = Some (Inl PARTIAL_MESSAGE, ?b2)"
    using c2 l2 by (simp add: MAGIC_def header_size_def buf_size_def)
  have r3: "parseMessage False ?par ?b3 = Some (Inr kDeviceSharingStopRequest, \<lparr>bytes = [0x44], slack = []\<rparr>)"
    using c3 l3 by (simp add: MAGIC_def header_size_def buf_size_def)
  show ?thesis using r1 r2 r3 by simp
qed

section \<open>The session entity: dde-cooperation-daemon/Machine/Machine.cc\<close>

subsection \<open>Collaborators\<close>

text \<open>
  What the Machine reads from its collaborators while it handles one event: the host and
  protobuf (for the codec), \<open>m_manager->uuid()\<close>, \<open>isSharedClipboard()\<close>,
  \<open>isSharedDevices()\<close> and \<open>fileStoragePath()\<close>, \<open>Net::getHostname()\<close>,
  \<open>m_clipboard->isFiles()\<close>, and the port a new FuseServer listens on.
\<close>

record Env =
  big_endian :: bool
  SerializeToArray :: "Message \<Rightarrow> byte list"
  ParseFromArray :: "byte list \<Rightarrow> Message"
  manager_uuid :: string
  getHostname :: string
  isSharedClipboard :: bool
  isSharedDevices :: bool
  fileStoragePath :: string
  isFiles :: bool
  fuseServer_port :: int

text \<open>
  Modelled from the spec: \<open>InputDeviceType\<close> (common.h is not among the sources), the
  keys KEYBOARD, MOUSE and TOUCHPAD of \<open>inputEmittors\<close>, in the spec's order; Machine.cc
  converts it to and from \<open>uint8_t\<close>.
\<close>

type_synonym InputDeviceType = "8 word"

definition KEYBOARD :: InputDeviceType where
  "KEYBOARD = 0"

definition MOUSE :: InputDeviceType where
  "MOUSE = 1"

definition TOUCHPAD :: InputDeviceType where
  "TOUCHPAD = 2"

text \<open>
  Modelled from the spec: the confirm dialog writes one byte, \<open>ACCEPT = 1\<close> or
  \<open>REJECT = 0\<close> (the constants are not among the sources).
\<close>

definition ACCEPT :: byte where
  "ACCEPT = 1"

definition REJECT :: byte where
  "REJECT = 0"

definition SCAN_KEY :: string where
  "SCAN_KEY = ''UOS-COOPERATION''"

definition fileSchema :: string where
  "fileSchema = ''file://''"

definition clipboardFileTarget :: string where
  "clipboardFileTarget = ''x-special/gnome-copied-files''"

definition uriListTarget :: string where
  "uriListTarget = ''text/uri-list''"

definition U10s :: nat where
  "U10s = 10 * 1000"

definition U25s :: nat where
  "U25s = 25 * 1000"

text \<open>
  Modelled from the spec: \<open>uvxx::Timer\<close> (not among the sources): \<open>start(periodMs)\<close>,
  \<open>oneshot(delayMs)\<close>, \<open>reset()\<close> (re-arm with the original interval), \<open>stop()\<close>,
  \<open>close()\<close>.
\<close>

record Timer =
  armed :: bool
  interval :: nat
  periodic :: bool
  timer_closed :: bool

definition new_Timer :: Timer where
  "new_Timer = \<lparr>armed = False, interval = 0, periodic = False, timer_closed = False\<rparr>"

definition timer_start :: "nat \<Rightarrow> Timer \<Rightarrow> Timer" where
  "timer_start ms t = t\<lparr>armed := True, interval := ms, periodic := True\<rparr>"

definition timer_oneshot :: "nat \<Rightarrow> Timer \<Rightarrow> Timer" where
  "timer_oneshot ms t = t\<lparr>armed := True, interval := ms, periodic := False\<rparr>"

definition timer_reset :: "Timer \<Rightarrow> Timer" where
  "timer_reset t = t\<lparr>armed := True\<rparr>"

definition timer_stop :: "Timer \<Rightarrow> Timer" where
  "timer_stop t = t\<lparr>armed := False\<rparr>"

definition timer_close :: "Timer \<Rightarrow> Timer" where
  "timer_close t = t\<lparr>armed := False, timer_closed := True\<rparr>"

text \<open>
  The stream \<open>uvxx::TCP\<close>: the callbacks that Machine.cc installs on it, the options it
  sets, whether \<open>startRead\<close> and \<open>close\<close> have been called.
\<close>

datatype Callback = cb_onConnected | cb_onConnectFailed | cb_handleDisconnectedAux | cb_dispatcher

record TCP =
  connectedCb :: "Callback option"
  connectFailedCb :: "Callback option"
  closedCb :: "Callback option"
  receivedCb :: "Callback option"
  noDelay :: bool
  keepAlive :: "nat option"
  reading :: bool
  closing :: bool

definition new_TCP :: TCP where
  "new_TCP = \<lparr>connectedCb = None, connectFailedCb = None, closedCb = None, receivedCb = None,
     noDelay = False, keepAlive = None, reading = False, closing = False\<rparr>"

text \<open>
  Modelled from the spec: \<open>InputEmittorWrapper::emitEvent\<close> (only the header is among
  the sources) writes the triple to the injector's pipe and returns whether the pipe
  accepted the bytes, here \<open>pipe_accepts\<close>.
\<close>

record InputEmittorWrapper =
  em_type :: InputDeviceType
  pipe_accepts :: bool

record FuseClient =
  fc_ip :: string
  fc_port :: int
  fc_mountpoint :: string

text \<open>
  The \<open>/bin/cp\<close> child of \<open>handleFsSendFileRequest\<close>: the file it runs, its arguments,
  and what its exit callback captured. Machine.cc constructs the process from the loop
  and the file name, installs the exit callback and spawns it.
\<close>

record CopyProcess =
  cp_file :: string
  cp_args :: "string list"
  cp_storagePath :: string
  cp_serial :: int
  cp_path :: string
  cp_onExit :: bool
  cp_spawned :: bool

text \<open>The closures handed to \<open>m_async->wake\<close>, run later on the loop thread.\<close>

datatype Wake = wake_deviceSharingStart bool | wake_sendFiles "string list"

text \<open>
  The calls the Machine makes on its collaborators, in the order it makes them: writes to
  the stream, the Manager, the D-Bus adaptor, the injector, the clipboard, the desktop
  notification and the subclass hooks \<open>handleConnected\<close> and \<open>handleDisconnected\<close>.
\<close>

datatype Effect =
  ConnWrite "byte list"
  | ConnConnect string nat
  | ManagerPing string
  | ManagerOnMachineOffline string
  | ManagerOnStartDeviceSharing string bool
  | ManagerOnStopDeviceSharing
  | ManagerMachineCooperated string
  | ManagerOnFlowBack FlowDirection int int
  | ManagerOnMachineOwnClipboard string "string list"
  | DBusUpdateConnected bool
  | DBusUpdateDeviceSharing bool
  | DBusUpdateDirection FlowDirection
  | EmitEvent InputDeviceType int int int
  | ClipboardReadTargetContent string
  | ClipboardUpdateTargetContent string string
  | ReceivedFilesSystemNtf string bool
  | FuseClientExit
  | HandleConnected
  | HandleDisconnected

record Machine =
  m_uuid :: string
  m_name :: string
  m_ip :: string
  m_port :: nat
  m_os :: DeviceOS
  m_compositor :: Compositor
  m_mountpoint :: string
  m_connected :: bool
  m_deviceSharing :: bool
  m_sharedClipboard :: bool
  m_mounted :: bool
  m_direction :: FlowDirection
  m_conn :: "TCP option"
  m_confirmDialog :: bool
  m_inputEmittors :: "InputDeviceType \<rightharpoonup> InputEmittorWrapper"
  m_fuseServer :: "int option"
  m_fuseClient :: "FuseClient option"
  m_pingTimer :: Timer
  m_offlineTimer :: Timer
  m_async :: "Wake list"
  processes :: "CopyProcess list"
  effects :: "Effect list"

definition emit :: "Effect \<Rightarrow> Machine \<Rightarrow> Machine" where
  "emit e m = m\<lparr>effects := effects m @ [e]\<rparr>"

text \<open>
  The constructor: \<open>m_mountpoint\<close> is \<open>m_dataDir / "mp"\<close>, the three emittors are
  registered, the ping timer starts at 10 s and the offline timer at 25 s. The initial
  \<open>m_sharedClipboard\<close> is not set in the constructor and is a parameter.
\<close>

definition path_append :: "string \<Rightarrow> string \<Rightarrow> string" where
  "path_append dir name =
     (if dir = [] then name
      else if last dir = CHR ''/'' then dir @ name else dir @ ''/'' @ name)"

definition Machine_ctor ::
  "string \<Rightarrow> string \<Rightarrow> nat \<Rightarrow> DeviceInfo \<Rightarrow> bool \<Rightarrow> (InputDeviceType \<Rightarrow> bool) \<Rightarrow> Machine" where
  "Machine_ctor dataDir ip port sp shared pipes =
     \<lparr>m_uuid = di_uuid sp, m_name = di_name sp, m_ip = ip, m_port = port, m_os = di_os sp,
      m_compositor = di_compositor sp, m_mountpoint = path_append dataDir ''mp'',
      m_connected = False, m_deviceSharing = False, m_sharedClipboard = shared,
      m_mounted = False, m_direction = FLOW_DIRECTION_RIGHT, m_conn = None,
      m_confirmDialog = False,
      m_inputEmittors =
        [KEYBOARD \<mapsto> \<lparr>em_type = KEYBOARD, pipe_accepts = pipes KEYBOARD\<rparr>,
         MOUSE \<mapsto> \<lparr>em_type = MOUSE, pipe_accepts = pipes MOUSE\<rparr>,
         TOUCHPAD \<mapsto> \<lparr>em_type = TOUCHPAD, pipe_accepts = pipes TOUCHPAD\<rparr>],
      m_fuseServer = None, m_fuseClient = None,
      m_pingTimer = timer_start U10s new_Timer, m_offlineTimer = timer_oneshot U25s new_Timer,
      m_async = [], processes = [], effects = []\<rparr>"

subsection \<open>Sending\<close>

text \<open>
  \<open>m_conn->write\<close> and \<open>m_conn->close\<close> dereference \<open>m_conn\<close>: on a reset
  connection the call has no result (\<open>None\<close>). \<open>sendMessage\<close> checks first and, on a
  reset connection, only logs a warning.
\<close>

definition conn_write :: "byte list \<Rightarrow> Machine \<Rightarrow> Machine option" where
  "conn_write bs m = (case m_conn m of None \<Rightarrow> None | Some c \<Rightarrow> Some (emit (ConnWrite bs) m))"

definition conn_close :: "Machine \<Rightarrow> Machine option" where
  "conn_close m =
     (case m_conn m of None \<Rightarrow> None | Some c \<Rightarrow> Some (m\<lparr>m_conn := Some (c\<lparr>closing := True\<rparr>)\<rparr>))"

definition encode :: "Env \<Rightarrow> Message \<Rightarrow> byte list" where
  "encode env msg = genMessage (big_endian env) (SerializeToArray env) msg"

definition sendMessage :: "Env \<Rightarrow> Message \<Rightarrow> Machine \<Rightarrow> Machine" where
  "sendMessage env msg m =
     (case m_conn m of None \<Rightarrow> m | Some c \<Rightarrow> emit (ConnWrite (encode env msg)) m)"

definition sendServiceStatusNotification :: "Env \<Rightarrow> Machine \<Rightarrow> Machine" where
  "sendServiceStatusNotification env m =
     sendMessage env
       (kServiceOnOffNotification
          \<lparr>sharedclipboardon = isSharedClipboard env, shareddeviceson = isSharedDevices env\<rparr>) m"

definition sendFlowDirectionNtf :: "Env \<Rightarrow> Machine \<Rightarrow> Machine" where
  "sendFlowDirectionNtf env m =
     sendMessage env (kFlowDirectionNtf \<lparr>ntf_direction = m_direction m\<rparr>) m"

definition sendReceivedFilesSystemNtf :: "string \<Rightarrow> bool \<Rightarrow> Machine \<Rightarrow> Machine" where
  "sendReceivedFilesSystemNtf path isSuccess m = emit (ReceivedFilesSystemNtf path isSuccess) m"

subsection \<open>Connecting and pairing\<close>

definition initConnection :: "Machine \<Rightarrow> Machine option" where
  "initConnection m =
     (case m_conn m of
        None \<Rightarrow> None
      | Some c \<Rightarrow>
          Some (m\<lparr>m_conn := Some (c\<lparr>closedCb := Some cb_handleDisconnectedAux,
                                    receivedCb := Some cb_dispatcher,
                                    noDelay := True, keepAlive := Some 20\<rparr>)\<rparr>))"

definition connect :: "Machine \<Rightarrow> Machine" where
  "connect m =
     emit (ConnConnect (m_ip m) (m_port m))
       (m\<lparr>m_conn := Some (new_TCP\<lparr>connectedCb := Some cb_onConnected,
                                 connectFailedCb := Some cb_onConnectFailed\<rparr>)\<rparr>)"

definition localDeviceInfo :: "Env \<Rightarrow> DeviceInfo" where
  "localDeviceInfo env =
     \<lparr>di_uuid = manager_uuid env, di_name = getHostname env, di_os = DEVICE_OS_LINUX,
      di_compositor = COMPOSITOR_X11\<rparr>"

definition onConnected :: "Env \<Rightarrow> Machine \<Rightarrow> Machine option" where
  "onConnected env m =
     (case initConnection m of
        None \<Rightarrow> None
      | Some m1 \<Rightarrow>
          (case m_conn m1 of
             None \<Rightarrow> None
           | Some c \<Rightarrow>
               (let m2 = m1\<lparr>m_conn := Some (c\<lparr>reading := True\<rparr>)\<rparr>;
                    m3 = m2\<lparr>m_pingTimer := timer_stop (m_pingTimer m2),
                            m_offlineTimer := timer_stop (m_offlineTimer m2)\<rparr>
                in Some (sendMessage env
                           (kPairRequest \<lparr>preq_key = SCAN_KEY, preq_deviceinfo = localDeviceInfo env\<rparr>)
                           m3))))"

definition onConnectFailed :: "Machine \<Rightarrow> Machine" where
  "onConnectFailed m = emit (ManagerPing (m_ip m)) m"

definition updateMachineInfo :: "string \<Rightarrow> nat \<Rightarrow> DeviceInfo \<Rightarrow> Machine \<Rightarrow> Machine" where
  "updateMachineInfo ip port devInfo m =
     m\<lparr>m_ip := ip, m_port := port, m_name := di_name devInfo,
       m_compositor := di_compositor devInfo\<rparr>"

definition receivedPing :: "Machine \<Rightarrow> Machine" where
  "receivedPing m =
     m\<lparr>m_offlineTimer := timer_reset (m_offlineTimer m),
       m_pingTimer := timer_reset (m_pingTimer m)\<rparr>"

definition onPair :: "TCP \<Rightarrow> Machine \<Rightarrow> Machine" where
  "onPair sock m = m\<lparr>m_conn := Some sock, m_confirmDialog := True\<rparr>"

definition disconnect :: "Machine \<Rightarrow> Machine option" where
  "disconnect m = conn_close m"

definition ping :: "Machine \<Rightarrow> Machine" where
  "ping m = emit (ManagerPing (m_ip m)) m"

definition onOffline :: "Machine \<Rightarrow> Machine" where
  "onOffline m = emit (ManagerOnMachineOffline (m_uuid m)) m"

definition handlePairResponseAux :: "Env \<Rightarrow> PairResponse \<Rightarrow> Machine \<Rightarrow> Machine option" where
  "handlePairResponseAux env resp m =
     (if \<not> presp_agree resp then
        (case conn_close m of
           None \<Rightarrow> None
         | Some m1 \<Rightarrow> Some (emit (DBusUpdateConnected False) (m1\<lparr>m_connected := False\<rparr>)))
      else
        Some (emit HandleConnected
               (sendServiceStatusNotification env
                  (emit (DBusUpdateConnected True) (m\<lparr>m_connected := True\<rparr>)))))"

definition receivedUserConfirm :: "Env \<Rightarrow> Buffer \<Rightarrow> Machine \<Rightarrow> (Buffer \<times> Machine) option" where
  "receivedUserConfirm env buff m =
     (let m0 = m\<lparr>m_confirmDialog := False\<rparr> in
      if buf_size buff \<noteq> 1 then Some (buff, m0)
      else
        (let isAccept = (buf_data buff ! 0 = ACCEPT);
             buff' = clear buff;
             m1 = sendMessage env
                    (kPairResponse \<lparr>presp_key = SCAN_KEY, presp_deviceinfo = localDeviceInfo env,
                                    presp_agree = isAccept\<rparr>) m0
         in if isAccept then
              (case initConnection m1 of
                 None \<Rightarrow> None
               | Some m2 \<Rightarrow>
                   (let m3 = m2\<lparr>m_pingTimer := timer_stop (m_pingTimer m2),
                                m_offlineTimer := timer_stop (m_offlineTimer m2)\<rparr>;
                        m4 = emit (DBusUpdateConnected True) (m3\<lparr>m_connected := True\<rparr>)
                    in Some (buff', emit HandleConnected (sendServiceStatusNotification env m4))))
            else map_option (Pair buff') (conn_close m1)))"

subsection \<open>Teardown and device sharing\<close>

definition handleDisconnectedAux :: "Machine \<Rightarrow> Machine" where
  "handleDisconnectedAux m =
     (let m1 = (if m_connected m then
                  emit (DBusUpdateConnected False)
                    ((emit (DBusUpdateDeviceSharing False)
                       ((emit ManagerOnStopDeviceSharing m)\<lparr>m_deviceSharing := False\<rparr>))
                     \<lparr>m_connected := False\<rparr>)
                else m);
          m2 = (case m_fuseClient m1 of
                  None \<Rightarrow> m1
                | Some fc \<Rightarrow> (emit FuseClientExit m1)\<lparr>m_fuseClient := None\<rparr>);
          m3 = (case m_fuseServer m2 of None \<Rightarrow> m2 | Some p \<Rightarrow> m2\<lparr>m_fuseServer := None\<rparr>);
          m4 = m3\<lparr>m_conn := None\<rparr>;
          m5 = m4\<lparr>m_pingTimer := timer_reset (m_pingTimer m4)\<rparr>
      in emit HandleDisconnected m5)"

definition stopDeviceSharingAux :: "Machine \<Rightarrow> Machine" where
  "stopDeviceSharingAux m =
     emit (DBusUpdateDeviceSharing False)
       ((emit ManagerOnStopDeviceSharing m)\<lparr>m_deviceSharing := False\<rparr>)"

definition requestDeviceSharing :: "Env \<Rightarrow> Machine \<Rightarrow> Machine" where
  "requestDeviceSharing env m = sendMessage env kDeviceSharingStartRequest m"

definition stopDeviceSharing :: "Env \<Rightarrow> Machine \<Rightarrow> Machine" where
  "stopDeviceSharing env m = stopDeviceSharingAux (sendMessage env kDeviceSharingStopRequest m)"

definition setFlowDirection :: "Env \<Rightarrow> FlowDirection \<Rightarrow> Machine \<Rightarrow> Machine" where
  "setFlowDirection env direction m =
     (if m_direction m \<noteq> direction then sendFlowDirectionNtf env (m\<lparr>m_direction := direction\<rparr>)
      else m)"

definition handleServiceOnOffMsg :: "ServiceOnOffNotification \<Rightarrow> Machine \<Rightarrow> Machine" where
  "handleServiceOnOffMsg notification m = m\<lparr>m_sharedClipboard := sharedclipboardon notification\<rparr>"

definition handleDeviceSharingStartRequest :: "Machine \<Rightarrow> Machine" where
  "handleDeviceSharingStartRequest m =
     (let accepted = True in m\<lparr>m_async := m_async m @ [wake_deviceSharingStart accepted]\<rparr>)"

text \<open>The closure that \<open>handleDeviceSharingStartRequest\<close> hands to \<open>wake\<close>.\<close>

definition deviceSharingStart_woken :: "Env \<Rightarrow> bool \<Rightarrow> Machine \<Rightarrow> Machine" where
  "deviceSharingStart_woken env accepted m =
     (let m1 = sendMessage env (kDeviceSharingStartResponse \<lparr>dss_accept = accepted\<rparr>) m in
      if accepted then
        (let m2 = emit (ManagerOnStartDeviceSharing (m_uuid m1) True) m1;
             m3 = emit (DBusUpdateDeviceSharing True) (m2\<lparr>m_deviceSharing := True\<rparr>);
             m4 = emit (ManagerMachineCooperated (m_uuid m3)) m3
         in emit (DBusUpdateDirection FLOW_DIRECTION_LEFT) (m4\<lparr>m_direction := FLOW_DIRECTION_LEFT\<rparr>))
      else m1)"

definition handleDeviceSharingStartResponse ::
  "Env \<Rightarrow> DeviceSharingStartResponse \<Rightarrow> Machine \<Rightarrow> Machine" where
  "handleDeviceSharingStartResponse env resp m =
     (if \<not> dss_accept resp then m
      else
        (let m1 = emit (DBusUpdateDeviceSharing True) (m\<lparr>m_deviceSharing := True\<rparr>);
             m2 = emit (ManagerMachineCooperated (m_uuid m1)) m1;
             m3 = emit (DBusUpdateDirection FLOW_DIRECTION_RIGHT)
                    (m2\<lparr>m_direction := FLOW_DIRECTION_RIGHT\<rparr>);
             m4 = sendFlowDirectionNtf env m3
         in emit (ManagerOnStartDeviceSharing (m_uuid m4) True) m4))"

definition handleDeviceSharingStopRequest :: "Machine \<Rightarrow> Machine" where
  "handleDeviceSharingStopRequest m = stopDeviceSharingAux m"

text \<open>
  The destructor: both timers and the wake handle are closed; a connection that is still
  there loses its close callback, is closed, and the Manager is told that sharing stopped.
\<close>

definition Machine_dtor :: "Machine \<Rightarrow> Machine" where
  "Machine_dtor m =
     (let m1 = m\<lparr>m_pingTimer := timer_close (m_pingTimer m),
                   m_offlineTimer := timer_close (m_offlineTimer m), m_async := []\<rparr>
      in case m_conn m1 of
           None \<Rightarrow> m1
         | Some c \<Rightarrow>
             emit ManagerOnStopDeviceSharing
               (m1\<lparr>m_conn := Some (c\<lparr>closedCb := None, closing := True\<rparr>)\<rparr>))"

subsection \<open>Service handlers\<close>

text \<open>\<open>static_cast<InputDeviceType>(req.devicetype())\<close>.\<close>

definition to_InputDeviceType :: "int \<Rightarrow> InputDeviceType" where
  "to_InputDeviceType v = word_of_int v"

definition emitEvent :: "InputEmittorWrapper \<Rightarrow> int \<Rightarrow> int \<Rightarrow> int \<Rightarrow> Machine \<Rightarrow> bool \<times> Machine" where
  "emitEvent em type code val m = (pipe_accepts em, emit (EmitEvent (em_type em) type code val) m)"

definition handleInputEventRequest :: "Env \<Rightarrow> InputEventRequest \<Rightarrow> Machine \<Rightarrow> Machine option" where
  "handleInputEventRequest env req m =
     (let deviceType = to_InputDeviceType (ireq_devicetype req);
          (success, m1) =
            (case m_inputEmittors m deviceType of
               None \<Rightarrow> (False, m)
             | Some inputEmittor \<Rightarrow>
                 emitEvent inputEmittor (ireq_type req) (ireq_code req) (ireq_value req) m)
      in conn_write
           (encode env (kInputEventResponse
              \<lparr>iresp_serial = ireq_serial req, iresp_success = success\<rparr>)) m1)"

definition handleFlowDirectionNtf :: "FlowDirectionNtf \<Rightarrow> Machine \<Rightarrow> Machine" where
  "handleFlowDirectionNtf ntf m =
     (case ntf_direction ntf of
        FLOW_DIRECTION_TOP \<Rightarrow> m\<lparr>m_direction := FLOW_DIRECTION_BOTTOM\<rparr>
      | FLOW_DIRECTION_BOTTOM \<Rightarrow> m\<lparr>m_direction := FLOW_DIRECTION_TOP\<rparr>
      | FLOW_DIRECTION_LEFT \<Rightarrow> m\<lparr>m_direction := FLOW_DIRECTION_RIGHT\<rparr>
      | FLOW_DIRECTION_RIGHT \<Rightarrow> m\<lparr>m_direction := FLOW_DIRECTION_LEFT\<rparr>
      | FLOW_DIRECTION_UNRECOGNIZED \<Rightarrow> m)"

definition handleFlowRequest :: "FlowRequest \<Rightarrow> Machine \<Rightarrow> Machine" where
  "handleFlowRequest req m =
     emit (ManagerOnFlowBack (flow_direction req) (flow_x req) (flow_y req)) m"

definition handleFsRequest :: "Env \<Rightarrow> Machine \<Rightarrow> Machine" where
  "handleFsRequest env m =
     (case m_fuseServer m of
        Some p \<Rightarrow> sendMessage env (kFsResponse \<lparr>fs_accepted = False, fs_port = 0\<rparr>) m
      | None \<Rightarrow>
          (let m1 = m\<lparr>m_fuseServer := Some (fuseServer_port env)\<rparr>
           in sendMessage env
                (kFsResponse \<lparr>fs_accepted = True, fs_port = fuseServer_port env\<rparr>) m1))"

definition handleFsResponse :: "FsResponse \<Rightarrow> Machine \<Rightarrow> Machine" where
  "handleFsResponse resp m =
     (if \<not> fs_accepted resp then m
      else m\<lparr>m_fuseClient :=
                Some \<lparr>fc_ip = m_ip m, fc_port = fs_port resp, fc_mountpoint = m_mountpoint m\<rparr>\<rparr>)"

text \<open>
  Lines 511 to 515 of \<open>handleFsSendFileRequest\<close>: the request path, with a slash put in
  front of a non-empty path that has none, appended to the mountpoint.
\<close>

definition filePath :: "string \<Rightarrow> string \<Rightarrow> string" where
  "filePath mountpoint path =
     (let reqPath = (if path \<noteq> [] \<and> path ! 0 \<noteq> CHR ''/'' then ''/'' @ path else path)
      in mountpoint @ reqPath)"

text \<open>
  \<open>handleFsSendFileRequest\<close>. The process is made from the loop and \<open>"/bin/cp"\<close>, gets
  its exit callback and is spawned; \<open>filePath\<close> is computed and not used after that, and no
  argument is handed to the process.
\<close>

definition handleFsSendFileRequest :: "Env \<Rightarrow> FsSendFileRequest \<Rightarrow> Machine \<Rightarrow> Machine" where
  "handleFsSendFileRequest env req m =
     (case m_fuseClient m of
        None \<Rightarrow>
          sendMessage env
            (kFsSendFileResponse \<lparr>sresp_serial = sreq_serial req, sresp_accepted = False\<rparr>) m
      | Some fc \<Rightarrow>
          (let m1 = sendMessage env
                      (kFsSendFileResponse
                         \<lparr>sresp_serial = sreq_serial req, sresp_accepted = True\<rparr>) m;
               storagePath = fileStoragePath env;
               filePath = filePath (m_mountpoint m1) (sreq_path req);
               process = \<lparr>cp_file = ''/bin/cp'', cp_args = [], cp_storagePath = storagePath,
                          cp_serial = sreq_serial req, cp_path = sreq_path req,
                          cp_onExit = True, cp_spawned = True\<rparr>
           in m1\<lparr>processes := processes m1 @ [process]\<rparr>))"

text \<open>
  The name after the last slash: \<open>path.substr(path.find_last_of('/') + 1)\<close>, the whole
  path when it has no slash.
\<close>

definition fileName :: "string \<Rightarrow> string" where
  "fileName path = rev (takeWhile (\<lambda>c. c \<noteq> CHR ''/'') (rev path))"

text \<open>The exit callback of the \<open>i\<close>-th copy process, with the exit status.\<close>

definition copy_onExit :: "Env \<Rightarrow> nat \<Rightarrow> int \<Rightarrow> Machine \<Rightarrow> Machine option" where
  "copy_onExit env i exit_status m =
     (if i < length (processes m) \<and> cp_onExit (processes m ! i) then
        (let p = processes m ! i;
             m1 = sendReceivedFilesSystemNtf
                    (cp_storagePath p @ ''/'' @ fileName (cp_path p)) (exit_status = 0) m;
             m2 = sendMessage env
                    (kFsSendFileResult
                       \<lparr>sres_serial = cp_serial p, sres_path = cp_path p,
                        sres_result = (exit_status = 0)\<rparr>) m1
         in Some (m2\<lparr>processes := (processes m2)[i := p\<lparr>cp_onExit := False\<rparr>]\<rparr>))
      else None)"

definition handleClipboardNotify :: "ClipboardNotify \<Rightarrow> Machine \<Rightarrow> Machine" where
  "handleClipboardNotify notify m =
     (let targets = cn_targets notify;
          targets' = (if m_os m \<noteq> DEVICE_OS_UOS \<and> clipboardFileTarget \<in> set targets
                      then targets @ [uriListTarget] else targets)
      in emit (ManagerOnMachineOwnClipboard (m_uuid m) targets') m)"

definition handleClipboardGetContentRequest :: "ClipboardGetContentRequest \<Rightarrow> Machine \<Rightarrow> Machine" where
  "handleClipboardGetContentRequest req m = emit (ClipboardReadTargetContent (creq_target req)) m"

text \<open>The callback given to \<open>readTargetContent\<close>, called with the content.\<close>

definition clipboardContent_cb :: "Env \<Rightarrow> string \<Rightarrow> string \<Rightarrow> Machine \<Rightarrow> Machine" where
  "clipboardContent_cb env target content m =
     sendMessage env
       (kClipboardGetContentResponse \<lparr>cresp_target = target, cresp_content = content\<rparr>) m"

text \<open>
  The lines that \<open>while (!ss.eof()) std::getline(ss, line, '\n')\<close> reads: the pieces
  between line feeds, the last one empty when the content ends with a line feed.
\<close>

fun getlines :: "string \<Rightarrow> string list" where
  "getlines [] = [[]]"
| "getlines (c # cs) =
     (if c = CHR 0x0A then [] # getlines cs
      else (case getlines cs of [] \<Rightarrow> [[c]] | l # ls \<Rightarrow> (c # l) # ls))"

definition startsWith :: "string \<Rightarrow> string \<Rightarrow> bool" where
  "startsWith pre s \<longleftrightarrow> take (length pre) s = pre"

definition rewriteLine :: "string \<Rightarrow> string \<Rightarrow> string" where
  "rewriteLine mountpoint line =
     (if line \<noteq> [] \<and> line ! 0 = CHR ''/'' then mountpoint @ line
      else if startsWith fileSchema line
      then fileSchema @ mountpoint @ drop (length fileSchema) line
      else line)"

fun firstFileUri :: "string list \<Rightarrow> string" where
  "firstFileUri [] = []"
| "firstFileUri [l] = (if l \<noteq> [] \<and> startsWith fileSchema l then drop (length fileSchema) l else l)"
| "firstFileUri (l # ls) =
     (if l \<noteq> [] \<and> startsWith fileSchema l then drop (length fileSchema) l else firstFileUri ls)"

definition handleClipboardGetContentResponse ::
  "Env \<Rightarrow> ClipboardGetContentResponse \<Rightarrow> Machine \<Rightarrow> Machine" where
  "handleClipboardGetContentResponse env resp m =
     (let target = cresp_target resp;
          content = (if isFiles env
                     then butlast (concat (map (\<lambda>line. rewriteLine (m_mountpoint m) line @ [CHR 0x0A])
                                              (getlines (cresp_content resp))))
                     else cresp_content resp);
          m1 = (if m_os m \<noteq> DEVICE_OS_UOS \<and> target = clipboardFileTarget then
                  (let filePath = firstFileUri (getlines content)
                   in if filePath \<noteq> [] then emit (ClipboardUpdateTargetContent uriListTarget filePath) m
                      else m)
                else m)
      in emit (ClipboardUpdateTargetContent target content) m1)"

subsection \<open>The dispatcher\<close>

text \<open>
  The \<open>switch\<close> of \<open>Machine::dispatcher\<close> on one decoded message. The flag says whether
  the loop goes on: the \<open>default\<close> arm closes the connection and returns.
\<close>

definition dispatch :: "Env \<Rightarrow> Message \<Rightarrow> Machine \<Rightarrow> (bool \<times> Machine) option" where
  "dispatch env msg m =
     (case msg of
        kPairResponse resp \<Rightarrow> map_option (Pair True) (handlePairResponseAux env resp m)
      | kServiceOnOffNotification n \<Rightarrow> Some (True, handleServiceOnOffMsg n m)
      | kDeviceSharingStartRequest \<Rightarrow> Some (True, handleDeviceSharingStartRequest m)
      | kDeviceSharingStartResponse resp \<Rightarrow> Some (True, handleDeviceSharingStartResponse env resp m)
      | kDeviceSharingStopRequest \<Rightarrow> Some (True, handleDeviceSharingStopRequest m)
      | kDeviceSharingStopResponse \<Rightarrow> Some (True, m)
      | kInputEventRequest req \<Rightarrow> map_option (Pair True) (handleInputEventRequest env req m)
      | kInputEventResponse resp \<Rightarrow> Some (True, m)
      | kFlowDirectionNtf ntf \<Rightarrow> Some (True, handleFlowDirectionNtf ntf m)
      | kFlowRequest req \<Rightarrow> Some (True, handleFlowRequest req m)
      | kFlowResponse \<Rightarrow> Some (True, m)
      | kFsRequest \<Rightarrow> Some (True, handleFsRequest env m)
      | kFsResponse resp \<Rightarrow> Some (True, handleFsResponse resp m)
      | kFsSendFileRequest req \<Rightarrow> Some (True, handleFsSendFileRequest env req m)
      | kFsSendFileResponse resp \<Rightarrow> Some (True, m)
      | kFsSendFileResult res \<Rightarrow> Some (True, m)
      | kClipboardNotify notify \<Rightarrow> Some (True, handleClipboardNotify notify m)
      | kClipboardGetContentRequest req \<Rightarrow> Some (True, handleClipboardGetContentRequest req m)
      | kClipboardGetContentResponse resp \<Rightarrow>
          Some (True, handleClipboardGetContentResponse env resp m)
      | _ \<Rightarrow> map_option (Pair False) (conn_close m))"

text \<open>
  A parse that returns a message consumes at least one byte: the wrapped sum
  \<open>header_size + header.size()\<close> is \<open>0\<close> only for the length \<open>2^64 - 16\<close>, which is
  negative as an \<open>int\<close>. So the loop below ends.
\<close>

lemma wrap_zero:
  assumes "(a + n) mod M = 0" "n < M" "0 < a" "a \<le> (M::nat)"
  shows "n = M - a"
proof (cases "a + n < M")
  case True
  then have "(a + n) mod M = a + n" by simp
  with assms show ?thesis by simp
next
  case False
  then have "(a + n) mod M = (a + n - M) mod M" by (simp add: mod_if)
  also have "\<dots> = a + n - M" using assms by simp
  finally have "a + n = M" using assms False by simp
  then show ?thesis by simp
qed

lemma to_int_wrapped: "unat n = 2 ^ 64 - 16 \<Longrightarrow> to_int n < 0"
proof -
  assume a: "unat n = 2 ^ 64 - 16"
  have "uint n = int (unat n)" by simp
  also have "\<dots> = 18446744073709551600" unfolding a by simp
  finally have "uint n = 18446744073709551600" .
  then show ?thesis by (simp add: to_int_def Let_def)
qed

lemma parseMessage_consumes:
  assumes p: "parseMessage be par buff = Some (Inr msg, buff')"
    and s: "header_size \<le> buf_size buff"
  shows "buf_size buff' < buf_size buff"
proof -
  let ?L = "MessageHeader_size be (peak be buff)"
  let ?S = "(header_size + unat ?L) mod 2 ^ 64"
  from p have t: "\<not> to_int ?L < 0" and b: "buff' = retrieve ?S buff"
    by (simp_all add: parseMessage_def Let_def split: if_splits)
  have "?S \<noteq> 0"
  proof
    assume z: "?S = 0"
    have lt: "unat ?L < 2 ^ 64" using unsigned_less [of ?L] by simp
    have "unat ?L = 2 ^ 64 - header_size"
      using z lt by (rule wrap_zero) (simp_all add: header_size_def)
    then have "to_int ?L < 0" by (intro to_int_wrapped) (simp add: header_size_def)
    with t show False by simp
  qed
  moreover have "0 < buf_size buff" using s by (simp add: header_size_def)
  ultimately show ?thesis
    unfolding b by (simp add: retrieve_def buf_size_def)
qed

text \<open>
  \<open>Machine::dispatcher\<close>: while the buffer holds at least a header, decode one message;
  on an error return (after closing the connection when the error is ILLEGAL), otherwise
  run the arm of the \<open>switch\<close> for the message. The result is the buffer and the
  Machine that the callback leaves.
\<close>

function dispatcher :: "Env \<Rightarrow> Buffer \<Rightarrow> Machine \<Rightarrow> (Buffer \<times> Machine) option" where
  "dispatcher env buff m =
     (if header_size \<le> buf_size buff then
        (case parseMessage (big_endian env) (ParseFromArray env) buff of
           None \<Rightarrow> None
         | Some (Inl e, buff') \<Rightarrow>
             (if e = ILLEGAL_MESSAGE then map_option (Pair buff') (conn_close m)
              else Some (buff', m))
         | Some (Inr msg, buff') \<Rightarrow>
             (case dispatch env msg m of
                None \<Rightarrow> None
              | Some (again, m') \<Rightarrow> if again then dispatcher env buff' m' else Some (buff', m')))
      else Some (buff, m))"
  by pat_completeness auto
termination
  by (relation "measure (\<lambda>(env, buff, m). buf_size buff)")
    (auto dest: parseMessage_consumes)

declare dispatcher.simps [simp del]

subsection \<open>Events of a session\<close>

text \<open>The closure at the head of the wake queue, run on the loop thread.\<close>

fun sendFiles_woken :: "Env \<Rightarrow> string list \<Rightarrow> Machine \<Rightarrow> Machine" where
  "sendFiles_woken env [] m = m"
| "sendFiles_woken env (p # ps) m =
     sendFiles_woken env ps
       (sendMessage env (kFsSendFileRequest \<lparr>sreq_serial = 0, sreq_path = p\<rparr>) m)"

definition sendFiles :: "string list \<Rightarrow> Machine \<Rightarrow> Machine" where
  "sendFiles filePaths m = m\<lparr>m_async := m_async m @ [wake_sendFiles filePaths]\<rparr>"

definition run_wake :: "Env \<Rightarrow> Wake \<Rightarrow> Machine \<Rightarrow> Machine" where
  "run_wake env w m =
     (case w of
        wake_deviceSharingStart accepted \<Rightarrow> deviceSharingStart_woken env accepted m
      | wake_sendFiles filePaths \<Rightarrow> sendFiles_woken env filePaths m)"

text \<open>
  The operations through which the Manager forwards local input, clipboard changes and
  the cursor leaving the screen. \<open>flowTo\<close> takes the direction as a number and
  converts it to the enumeration; here it takes the enumeration.
\<close>

definition onInputGrabberEvent :: "Env \<Rightarrow> InputDeviceType \<Rightarrow> int \<Rightarrow> int \<Rightarrow> int \<Rightarrow> Machine \<Rightarrow> Machine" where
  "onInputGrabberEvent env deviceType type code val m =
     sendMessage env
       (kInputEventRequest
          \<lparr>ireq_serial = 0, ireq_devicetype = uint deviceType, ireq_type = type,
           ireq_code = code, ireq_value = val\<rparr>) m"

definition onClipboardTargetsChanged :: "Env \<Rightarrow> string list \<Rightarrow> Machine \<Rightarrow> Machine" where
  "onClipboardTargetsChanged env targets m =
     (if \<not> isSharedClipboard env then m
      else sendMessage env (kClipboardNotify \<lparr>cn_targets = targets\<rparr>) m)"

definition flowTo :: "Env \<Rightarrow> FlowDirection \<Rightarrow> int \<Rightarrow> int \<Rightarrow> Machine \<Rightarrow> Machine" where
  "flowTo env direction x y m =
     sendMessage env
       (kFlowRequest \<lparr>flow_direction = direction, flow_x = x, flow_y = y\<rparr>) m"

definition readTarget :: "Env \<Rightarrow> string \<Rightarrow> Machine \<Rightarrow> Machine" where
  "readTarget env target m =
     sendMessage env (kClipboardGetContentRequest \<lparr>creq_target = target\<rparr>) m"

text \<open>
  What the event loop delivers to one Machine: calls of its public operations and the
  callbacks it installed. A callback fires only where it is installed; \<open>None\<close> is an
  event that cannot happen in the state, or a call through a reset \<open>m_conn\<close>.
\<close>

datatype Event =
  EvConnect
  | EvConnected
  | EvConnectFailed
  | EvOnPair TCP
  | EvUserConfirm Buffer
  | EvMessage Message
  | EvClosed
  | EvWake
  | EvProcessExit nat int
  | EvRequestDeviceSharing
  | EvStopDeviceSharing
  | EvSetFlowDirection FlowDirection
  | EvSendFiles "string list"
  | EvReceivedPing
  | EvUpdateMachineInfo string nat DeviceInfo
  | EvPingTimer
  | EvOfflineTimer
  | EvDisconnect
  | EvClipboardContent string string
  | EvInputGrabberEvent InputDeviceType int int int
  | EvClipboardTargetsChanged "string list"
  | EvFlowTo FlowDirection int int
  | EvReadTarget string

definition step :: "Env \<Rightarrow> Event \<Rightarrow> Machine \<Rightarrow> Machine option" where
  "step env ev m =
     (case ev of
        EvConnect \<Rightarrow> Some (connect m)
      | EvConnected \<Rightarrow>
          (case m_conn m of
             None \<Rightarrow> None
           | Some c \<Rightarrow> if connectedCb c = Some cb_onConnected then onConnected env m else None)
      | EvConnectFailed \<Rightarrow>
          (case m_conn m of
             None \<Rightarrow> None
           | Some c \<Rightarrow>
               if connectFailedCb c = Some cb_onConnectFailed then Some (onConnectFailed m)
               else None)
      | EvOnPair sock \<Rightarrow> Some (onPair sock m)
      | EvUserConfirm buff \<Rightarrow>
          (if m_confirmDialog m then map_option snd (receivedUserConfirm env buff m) else None)
      | EvMessage msg \<Rightarrow>
          (case m_conn m of
             None \<Rightarrow> None
           | Some c \<Rightarrow>
               if receivedCb c = Some cb_dispatcher then map_option snd (dispatch env msg m)
               else None)
      | EvClosed \<Rightarrow>
          (case m_conn m of
             None \<Rightarrow> None
           | Some c \<Rightarrow>
               if closedCb c = Some cb_handleDisconnectedAux then Some (handleDisconnectedAux m)
               else None)
      | EvWake \<Rightarrow>
          (case m_async m of [] \<Rightarrow> None | w # ws \<Rightarrow> Some (run_wake env w (m\<lparr>m_async := ws\<rparr>)))
      | EvProcessExit i exit_status \<Rightarrow> copy_onExit env i exit_status m
      | EvRequestDeviceSharing \<Rightarrow> Some (requestDeviceSharing env m)
      | EvStopDeviceSharing \<Rightarrow> Some (stopDeviceSharing env m)
      | EvSetFlowDirection d \<Rightarrow> Some (setFlowDirection env d m)
      | EvSendFiles ps \<Rightarrow> Some (sendFiles ps m)
      | EvReceivedPing \<Rightarrow> Some (receivedPing m)
      | EvUpdateMachineInfo ip port info \<Rightarrow> Some (updateMachineInfo ip port info m)
      | EvPingTimer \<Rightarrow> Some (ping m)
      | EvOfflineTimer \<Rightarrow> Some (onOffline m)
      | EvDisconnect \<Rightarrow> disconnect m
      | EvClipboardContent target content \<Rightarrow> Some (clipboardContent_cb env target content m)
      | EvInputGrabberEvent deviceType type code val \<Rightarrow>
          Some (onInputGrabberEvent env deviceType type code val m)
      | EvClipboardTargetsChanged targets \<Rightarrow> Some (onClipboardTargetsChanged env targets m)
      | EvFlowTo direction x y \<Rightarrow> Some (flowTo env direction x y m)
      | EvReadTarget target \<Rightarrow> Some (readTarget env target m))"

text \<open>
  A run: the events in turn, each only where the guard \<open>g\<close> admits it in the state it
  meets.
\<close>

fun run :: "(Event \<Rightarrow> Machine \<Rightarrow> bool) \<Rightarrow> Env \<Rightarrow> Event list \<Rightarrow> Machine \<Rightarrow> Machine option" where
  "run g env [] m = Some m"
| "run g env (ev # evs) m =
     (if g ev m then (case step env ev m of None \<Rightarrow> None | Some m' \<Rightarrow> run g env evs m')
      else None)"

definition any_order :: "Event \<Rightarrow> Machine \<Rightarrow> bool" where
  "any_order ev m = True"

subsection \<open>Concrete inputs for the examples\<close>

text \<open>
  A little-endian host with a stand-in for protobuf that serialises the empty message to
  no bytes and any other to two, a freshly constructed Machine, the same Machine paired
  and sharing, and the same with a FuseClient.
\<close>

definition example_env :: Env where
  "example_env =
     \<lparr>big_endian = False,
      SerializeToArray = (\<lambda>m. if m = PAYLOAD_NOT_SET then [] else [0x2A, 0x00]),
      ParseFromArray = (\<lambda>bs. if bs = [] then PAYLOAD_NOT_SET else kDeviceSharingStopRequest),
      manager_uuid = ''local'', getHostname = ''desk'', isSharedClipboard = True,
      isSharedDevices = False, fileStoragePath = ''/home/u/Downloads'', isFiles = False,
      fuseServer_port = 40000\<rparr>"

definition example_peer :: DeviceInfo where
  "example_peer =
     \<lparr>di_uuid = ''A'', di_name = ''peer'', di_os = DEVICE_OS_UOS, di_compositor = COMPOSITOR_X11\<rparr>"

definition example_machine :: Machine where
  "example_machine = Machine_ctor ''/var/lib/coop'' ''10.0.0.2'' 51595 example_peer False (\<lambda>t. True)"

definition example_paired :: Machine where
  "example_paired =
     example_machine
       \<lparr>m_conn := Some (new_TCP\<lparr>closedCb := Some cb_handleDisconnectedAux,
                                receivedCb := Some cb_dispatcher, noDelay := True,
                                keepAlive := Some 20, reading := True\<rparr>),
        m_connected := True, m_deviceSharing := True\<rparr>"

definition example_mounted :: Machine where
  "example_mounted =
     example_paired
       \<lparr>m_fuseClient := Some \<lparr>fc_ip = ''10.0.0.2'', fc_port = 40000,
                              fc_mountpoint = ''/var/lib/coop/mp''\<rparr>\<rparr>"

lemma example_frame:
  "encode example_env kDeviceSharingStopRequest = MAGIC @ [0, 0, 0, 0, 0, 0, 0, 2, 0x2A, 0x00]"
  by code_simp

subsection \<open>Sharing and connection\<close>

lemma emit_flags [simp]:
  "m_deviceSharing (emit e m) = m_deviceSharing m"
  "m_connected (emit e m) = m_connected m"
  "m_conn (emit e m) = m_conn m"
  "m_async (emit e m) = m_async m"
  by (simp_all add: emit_def)

lemma sendMessage_flags [simp]:
  "m_deviceSharing (sendMessage env msg m) = m_deviceSharing m"
  "m_connected (sendMessage env msg m) = m_connected m"
  "m_conn (sendMessage env msg m) = m_conn m"
  by (simp_all add: sendMessage_def split: option.split)

lemma sendFiles_woken_flags [simp]:
  "m_deviceSharing (sendFiles_woken env ps m) = m_deviceSharing m"
  "m_connected (sendFiles_woken env ps m) = m_connected m"
  by (induction ps arbitrary: m) simp_all

lemma conn_close_flags:
  "conn_close m = Some m' \<Longrightarrow> m_deviceSharing m' = m_deviceSharing m \<and> m_connected m' = m_connected m"
  by (auto simp: conn_close_def split: option.splits)

lemma initConnection_flags:
  "initConnection m = Some m' \<Longrightarrow> m_deviceSharing m' = m_deviceSharing m \<and> m_connected m' = m_connected m"
  by (auto simp: initConnection_def split: option.splits)

text \<open>
  The close callback clears both flags of a connected Machine and resets the connection;
  the closure queued by \<open>handleDeviceSharingStartRequest\<close> sets \<open>m_deviceSharing\<close>
  whatever the state it runs in (only its \<open>sendMessage\<close> looks at \<open>m_conn\<close>).
\<close>

lemma handleDisconnectedAux_clears:
  "m_connected m \<Longrightarrow>
   \<not> m_deviceSharing (handleDisconnectedAux m) \<and> \<not> m_connected (handleDisconnectedAux m)"
  by (simp add: handleDisconnectedAux_def Let_def split: option.split)

lemma handleDisconnectedAux_resets: "m_conn (handleDisconnectedAux m) = None"
  by (simp add: handleDisconnectedAux_def Let_def split: option.split)

lemma deviceSharingStart_woken_sets:
  "m_deviceSharing (deviceSharingStart_woken env True m)
   \<and> m_connected (deviceSharingStart_woken env True m) = m_connected m"
  by (simp add: deviceSharingStart_woken_def Let_def)

text \<open>
  The step from \<open>m\<close> to \<open>m'\<close> tells the Manager that sharing started or stopped:
  \<open>onStartDeviceSharing\<close> when \<open>m'\<close> is sharing, \<open>onStopDeviceSharing\<close> when it is not.
\<close>

definition reported :: "Machine \<Rightarrow> Machine \<Rightarrow> bool" where
  "reported m m' \<longleftrightarrow>
     (if m_deviceSharing m' then ManagerOnStartDeviceSharing (m_uuid m) True
      else ManagerOnStopDeviceSharing) \<in> set (drop (length (effects m)) (effects m'))"

lemma dispatch_reports:
  assumes "dispatch env msg m = Some (again, m')" and "m_deviceSharing m' \<noteq> m_deviceSharing m"
  shows "reported m m'"
proof (cases msg)
  case (kPairResponse resp)
  with assms show ?thesis
    by (auto simp: dispatch_def handlePairResponseAux_def
        sendServiceStatusNotification_def dest!: conn_close_flags split: if_splits option.splits)
next
  case (kDeviceSharingStartResponse resp)
  with assms show ?thesis
    by (auto simp: dispatch_def handleDeviceSharingStartResponse_def Let_def reported_def
        sendFlowDirectionNtf_def sendMessage_def emit_def split: if_splits option.splits)
next
  case (kInputEventRequest req)
  with assms show ?thesis
    by (auto simp: dispatch_def handleInputEventRequest_def Let_def emitEvent_def conn_write_def
        split: option.splits prod.splits)
next
  case (kClipboardGetContentResponse resp)
  with assms show ?thesis
    by (auto simp: dispatch_def handleClipboardGetContentResponse_def Let_def split: if_splits)
next
  case (kFsSendFileRequest req)
  with assms show ?thesis
    by (auto simp: dispatch_def handleFsSendFileRequest_def Let_def split: option.splits)
next
  case kDeviceSharingStopRequest
  with assms show ?thesis
    by (auto simp: dispatch_def handleDeviceSharingStopRequest_def stopDeviceSharingAux_def
        reported_def emit_def)
qed (use assms in \<open>auto simp: dispatch_def
      handleServiceOnOffMsg_def handleDeviceSharingStartRequest_def
      handleFlowDirectionNtf_def
      handleFlowRequest_def handleFsRequest_def handleFsResponse_def
      handleClipboardNotify_def handleClipboardGetContentRequest_def Let_def
      dest!: conn_close_flags split: option.splits FlowDirection.splits if_splits\<close>)

lemma step_reports:
  assumes "step env ev m = Some m'" and "m_deviceSharing m' \<noteq> m_deviceSharing m"
  shows "reported m m'"
proof (cases ev)
  case (EvMessage msg)
  with assms show ?thesis
    by (auto simp: step_def split: option.splits if_splits dest: dispatch_reports)
next
  case EvConnected
  with assms show ?thesis
    by (auto simp: step_def onConnected_def Let_def
        split: option.splits if_splits dest!: initConnection_flags)
next
  case (EvUserConfirm buff)
  with assms show ?thesis
    by (auto simp: step_def receivedUserConfirm_def Let_def
        sendServiceStatusNotification_def
        split: option.splits if_splits dest!: initConnection_flags conn_close_flags)
next
  case EvClosed
  with assms show ?thesis
    by (auto simp: step_def handleDisconnectedAux_def Let_def reported_def emit_def
        split: option.splits if_splits)
next
  case EvWake
  with assms show ?thesis
    by (auto simp: step_def run_wake_def deviceSharingStart_woken_def Let_def reported_def
        sendMessage_def emit_def
        split: list.splits Wake.splits if_splits option.splits)
next
  case (EvProcessExit i st)
  with assms show ?thesis
    by (auto simp: step_def copy_onExit_def Let_def
        sendReceivedFilesSystemNtf_def split: if_splits)
next
  case EvStopDeviceSharing
  with assms show ?thesis
    by (auto simp: step_def stopDeviceSharing_def stopDeviceSharingAux_def reported_def
        sendMessage_def emit_def split: option.splits)
qed (use assms in \<open>auto simp: step_def connect_def
      onConnectFailed_def onPair_def requestDeviceSharing_def
      setFlowDirection_def sendFlowDirectionNtf_def sendFiles_def
      receivedPing_def updateMachineInfo_def ping_def onOffline_def disconnect_def
      clipboardContent_cb_def onInputGrabberEvent_def onClipboardTargetsChanged_def flowTo_def
      readTarget_def
      split: option.splits if_splits dest!: conn_close_flags\<close>)

lemma emit_other:
  "m_fuseClient (emit e m) = m_fuseClient m"
  "m_fuseServer (emit e m) = m_fuseServer m"
  by (simp_all add: emit_def)

lemma sendMessage_other:
  "m_async (sendMessage env msg m) = m_async m"
  "m_fuseClient (sendMessage env msg m) = m_fuseClient m"
  "m_fuseServer (sendMessage env msg m) = m_fuseServer m"
  by (simp_all add: sendMessage_def emit_def split: option.split)

text \<open>
  C3. A peer is paired (the user accepts its PairRequest) and asks for device sharing;
  the acceptance is queued on the wake handle. The stream closes before the loop runs the
  queued closure: the close callback clears \<open>m_connected\<close> and \<open>m_deviceSharing\<close>
  and resets \<open>m_conn\<close>. The closure then runs and sets \<open>m_deviceSharing\<close>: the
  Machine is sharing, not connected and without a connection.
\<close>

theorem sharing_after_close:
  "map_option (\<lambda>m. (m_deviceSharing m, m_connected m, m_conn m))
     (run any_order example_env
        [EvOnPair new_TCP, EvUserConfirm \<lparr>bytes = [ACCEPT], slack = []\<rparr>,
         EvMessage kDeviceSharingStartRequest, EvClosed, EvWake]
        example_machine)
   = Some (True, False, None)"
  by (simp add: example_machine_def Machine_ctor_def step_def any_order_def onPair_def
      new_TCP_def receivedUserConfirm_def buf_size_def buf_data_def initConnection_def Let_def
      sendServiceStatusNotification_def dispatch_def handleDeviceSharingStartRequest_def
      handleDisconnectedAux_def run_wake_def deviceSharingStart_woken_def
      emit_other sendMessage_other)

text \<open>
  The flag is also set where the pairing has not been answered yet: after an outbound
  connect the dispatcher is installed before the PairResponse arrives, and an accepting
  DeviceSharingStartResponse is handled without a look at \<open>m_connected\<close>.
\<close>

lemma sharing_before_pairing:
  "map_option (\<lambda>m. (m_deviceSharing m, m_connected m))
     (run any_order example_env
        [EvConnect, EvConnected, EvMessage (kDeviceSharingStartResponse \<lparr>dss_accept = True\<rparr>)]
        example_machine)
   = Some (True, False)"
  by (simp add: example_machine_def Machine_ctor_def step_def connect_def new_TCP_def
      onConnected_def initConnection_def Let_def any_order_def dispatch_def
      handleDeviceSharingStartResponse_def sendFlowDirectionNtf_def)

subsection \<open>The drain loop\<close>

text \<open>The payload cases that the \<open>switch\<close> of the dispatcher has a label for.\<close>

definition known :: "Message \<Rightarrow> bool" where
  "known msg = (case msg of PAYLOAD_NOT_SET \<Rightarrow> False | kPairRequest req \<Rightarrow> False | _ \<Rightarrow> True)"

text \<open>
  The handlers of the messages of a list, each invoked once, in the order of the list
  (the arm of the \<open>switch\<close> for each message, on the state the one before left).
\<close>

fun handle_each :: "Env \<Rightarrow> Message list \<Rightarrow> Machine \<Rightarrow> Machine option" where
  "handle_each env [] m = Some m"
| "handle_each env (msg # msgs) m =
     (case dispatch env msg m of None \<Rightarrow> None | Some (again, m') \<Rightarrow> handle_each env msgs m')"

definition frames :: "Env \<Rightarrow> Message list \<Rightarrow> byte list" where
  "frames env msgs = concat (map (encode env) msgs)"

lemma dispatch_unknown:
  "\<not> known msg \<Longrightarrow> dispatch env msg m = map_option (Pair False) (conn_close m)"
  by (cases msg) (simp_all add: known_def dispatch_def)

lemma dispatch_known:
  assumes "known msg" and "m_conn m \<noteq> None"
  shows "\<exists>m'. dispatch env msg m = Some (True, m') \<and> m_conn m' \<noteq> None"
proof (cases msg)
  case (kPairResponse resp)
  with assms show ?thesis
    by (auto simp: dispatch_def handlePairResponseAux_def conn_close_def
        sendServiceStatusNotification_def split: option.splits)
next
  case (kInputEventRequest req)
  with assms show ?thesis
    by (auto simp: dispatch_def handleInputEventRequest_def Let_def emitEvent_def conn_write_def
        split: option.splits prod.splits)
next
  case (kDeviceSharingStartResponse resp)
  with assms show ?thesis
    by (auto simp: dispatch_def handleDeviceSharingStartResponse_def Let_def
        sendFlowDirectionNtf_def)
next
  case (kClipboardGetContentResponse resp)
  with assms show ?thesis
    by (auto simp: dispatch_def handleClipboardGetContentResponse_def Let_def)
next
  case (kFsSendFileRequest req)
  with assms show ?thesis
    by (auto simp: dispatch_def handleFsSendFileRequest_def Let_def split: option.splits)
qed (use assms in \<open>auto simp: dispatch_def known_def
      handleServiceOnOffMsg_def handleDeviceSharingStartRequest_def
      handleDeviceSharingStopRequest_def stopDeviceSharingAux_def handleFlowDirectionNtf_def
      handleFlowRequest_def handleFsRequest_def handleFsResponse_def
      handleClipboardNotify_def handleClipboardGetContentRequest_def Let_def
      split: option.splits FlowDirection.splits if_splits\<close>)

lemma parseMessage_prefix:
  assumes f: "tail @ rest = genMessage be ser msg" and r: "rest \<noteq> []"
    and l: "length (ser msg) < 2 ^ 31" and t: "header_size \<le> length tail"
  shows "parseMessage be par (b\<lparr>bytes := tail\<rparr>) = Some (Inl PARTIAL_MESSAGE, b\<lparr>bytes := tail\<rparr>)"
proof -
  let ?n = "of_nat (length (ser msg)) :: 64 word"
  let ?h = "MessageHeader_ctor be ?n"
  let ?b = "b\<lparr>bytes := tail\<rparr>"
  have g: "genMessage be ser msg = header_image be ?h @ ser msg"
    by (simp add: genMessage_def Let_def)
  have t16: "16 \<le> length tail" using t by (simp add: header_size_def)
  have hd: "take 16 tail = header_image be ?h"
  proof -
    have "take 16 tail = take 16 (tail @ rest)" using t16 by simp
    also have "\<dots> = header_image be ?h" unfolding f g by (simp add: length_header_image)
    finally show ?thesis .
  qed
  have "tail = take 16 tail @ drop 16 tail" by simp
  then have tl: "tail = header_image be ?h @ drop 16 tail" unfolding hd .
  have p: "peak be ?b = ?h"
    using peak_header_image [where be = be and b = b and n = "?n" and rest = "drop 16 tail"] tl
    by simp
  have lg: "legal ?h"
    by (simp add: legal_def MessageHeader_ctor_def)
  have hl: "MessageHeader_size be ?h = ?n"
    by (simp add: MessageHeader_size_def MessageHeader_ctor_def ntohll_htonll)
  have "length (ser msg) < 2 ^ 64"
    using l by (rule less_trans) simp
  then have un: "unat ?n = length (ser msg)"
    by (simp add: unat_of_nat)
  have sm: "(header_size + length (ser msg)) mod 2 ^ 64 = 16 + length (ser msg)"
    using l by (simp add: header_size_def)
  have "length tail + length rest = 16 + length (ser msg)"
    using arg_cong [OF f, of length] by (simp add: g length_header_image)
  moreover have "length tail < length tail + length rest" using r by simp
  ultimately have "length tail < 16 + length (ser msg)" by (rule subst)
  then have sz: "buf_size ?b < 16 + length (ser msg)"
    by (simp add: buf_size_def)
  show ?thesis
    unfolding parseMessage_def Let_def p hl un sm
    using lg sz by simp
qed

lemma encode_length: "header_size \<le> length (encode env msg)"
  by (simp add: encode_def genMessage_def Let_def length_header_image header_size_def)

lemma dispatcher_tail:
  assumes "length tail < header_size
      \<or> (\<exists>rest msg. rest \<noteq> [] \<and> tail @ rest = encode env msg
            \<and> length (SerializeToArray env msg) < 2 ^ 31)"
  shows "dispatcher env (b\<lparr>bytes := tail\<rparr>) m = Some (b\<lparr>bytes := tail\<rparr>, m)"
proof (cases "length tail < header_size")
  case True
  then show ?thesis by (subst dispatcher.simps) (simp add: buf_size_def)
next
  case False
  with assms obtain rest msg where r: "rest \<noteq> []" and f: "tail @ rest = encode env msg"
    and l: "length (SerializeToArray env msg) < 2 ^ 31" by blast
  from False have t: "header_size \<le> length tail" by simp
  have "parseMessage (big_endian env) (ParseFromArray env) (b\<lparr>bytes := tail\<rparr>)
      = Some (Inl PARTIAL_MESSAGE, b\<lparr>bytes := tail\<rparr>)"
    using f [unfolded encode_def] r l t by (rule parseMessage_prefix)
  with t show ?thesis by (subst dispatcher.simps) (simp add: buf_size_def)
qed

lemma dispatcher_known_prefix:
  assumes "\<forall>msg \<in> set msgs. known msg \<and> ParseFromArray env (SerializeToArray env msg) = msg
      \<and> length (SerializeToArray env msg) < 2 ^ 31"
    and "m_conn m \<noteq> None"
  shows "\<exists>m'. handle_each env msgs m = Some m' \<and> m_conn m' \<noteq> None
      \<and> dispatcher env (b\<lparr>bytes := frames env msgs @ rest\<rparr>) m
          = dispatcher env (b\<lparr>bytes := rest\<rparr>) m'"
  using assms
proof (induction msgs arbitrary: m)
  case Nil
  then show ?case by (simp add: frames_def)
next
  case (Cons msg msgs)
  from Cons.prems(1) have k: "known msg"
    and r: "ParseFromArray env (SerializeToArray env msg) = msg"
    and l: "length (SerializeToArray env msg) < 2 ^ 31" by simp_all
  from dispatch_known [OF k Cons.prems(2)] obtain m1
    where d: "dispatch env msg m = Some (True, m1)" and c: "m_conn m1 \<noteq> None" by blast
  from Cons.prems(1) have others: "\<forall>msg \<in> set msgs. known msg
      \<and> ParseFromArray env (SerializeToArray env msg) = msg
      \<and> length (SerializeToArray env msg) < 2 ^ 31" by simp
  from Cons.IH [OF others c] obtain m' where h: "handle_each env msgs m1 = Some m'"
    and c': "m_conn m' \<noteq> None"
    and i: "dispatcher env (b\<lparr>bytes := frames env msgs @ rest\<rparr>) m1
        = dispatcher env (b\<lparr>bytes := rest\<rparr>) m'"
    by blast
  let ?buf = "b\<lparr>bytes := frames env (msg # msgs) @ rest\<rparr>"
  have fr: "frames env (msg # msgs) @ rest = encode env msg @ (frames env msgs @ rest)"
    by (simp add: frames_def)
  have p: "parseMessage (big_endian env) (ParseFromArray env) ?buf
      = Some (Inr msg, b\<lparr>bytes := frames env msgs @ rest\<rparr>)"
    unfolding fr encode_def using r l by (rule parseMessage_genMessage)
  have s: "header_size \<le> buf_size ?buf"
    unfolding fr using encode_length [of env msg] by (simp add: buf_size_def)
  have "dispatcher env ?buf m = dispatcher env (b\<lparr>bytes := rest\<rparr>) m'"
    by (subst dispatcher.simps) (simp add: s p d i)
  with h d c' show ?case by simp
qed

lemma dispatcher_unknown_head:
  assumes "\<not> known u" and "ParseFromArray env (SerializeToArray env u) = u"
    and "length (SerializeToArray env u) < 2 ^ 31" and "m_conn m = Some c"
  shows "dispatcher env (b\<lparr>bytes := encode env u @ rest\<rparr>) m
      = Some (b\<lparr>bytes := rest\<rparr>, m\<lparr>m_conn := Some (c\<lparr>closing := True\<rparr>)\<rparr>)"
proof -
  let ?buf = "b\<lparr>bytes := encode env u @ rest\<rparr>"
  have p: "parseMessage (big_endian env) (ParseFromArray env) ?buf
      = Some (Inr u, b\<lparr>bytes := rest\<rparr>)"
    unfolding encode_def using assms(2,3) by (rule parseMessage_genMessage)
  have s: "header_size \<le> buf_size ?buf"
    using encode_length [of env u] by (simp add: buf_size_def)
  have d: "dispatch env u m = Some (False, m\<lparr>m_conn := Some (c\<lparr>closing := True\<rparr>)\<rparr>)"
    using assms(1,4) by (simp add: dispatch_unknown conn_close_def)
  show ?thesis
    by (subst dispatcher.simps) (simp add: s p d)
qed

text \<open>
  C4, as amended. When the buffer starts with the frames of messages that all carry a
  variant the \<open>switch\<close> of the dispatcher handles (and that protobuf parses back from
  bodies of fewer than \<open>2^31\<close> bytes), the dispatcher invokes the handler of each of
  them once, in the order of arrival. When the beginning of an incomplete frame follows
  them, it leaves exactly the bytes of that incomplete frame in the buffer. When the frame
  of a message of another variant follows them, it closes the connection and returns, and
  everything behind that frame stays in the buffer.
\<close>

theorem dispatcher_drain:
  assumes "\<forall>msg \<in> set msgs. known msg \<and> ParseFromArray env (SerializeToArray env msg) = msg
      \<and> length (SerializeToArray env msg) < 2 ^ 31"
    and "m_conn m \<noteq> None"
  shows "\<exists>m' c'. handle_each env msgs m = Some m' \<and> m_conn m' = Some c'
      \<and> (\<forall>tail. length tail < header_size
              \<or> (\<exists>rest msg. rest \<noteq> [] \<and> tail @ rest = encode env msg
                    \<and> length (SerializeToArray env msg) < 2 ^ 31)
            \<longrightarrow> dispatcher env (b\<lparr>bytes := frames env msgs @ tail\<rparr>) m
                = Some (b\<lparr>bytes := tail\<rparr>, m'))
      \<and> (\<forall>u rest. \<not> known u \<and> ParseFromArray env (SerializeToArray env u) = u
              \<and> length (SerializeToArray env u) < 2 ^ 31
            \<longrightarrow> dispatcher env (b\<lparr>bytes := frames env msgs @ encode env u @ rest\<rparr>) m
                = Some (b\<lparr>bytes := rest\<rparr>, m'\<lparr>m_conn := Some (c'\<lparr>closing := True\<rparr>)\<rparr>))"
proof -
  from dispatcher_known_prefix [OF assms] obtain k where k: "\<forall>rest. \<exists>m'.
      handle_each env msgs m = Some m' \<and> m_conn m' \<noteq> None
      \<and> dispatcher env (b\<lparr>bytes := frames env msgs @ rest\<rparr>) m
          = dispatcher env (b\<lparr>bytes := rest\<rparr>) m'"
    by blast
  from k obtain m' where h: "handle_each env msgs m = Some m'" and "m_conn m' \<noteq> None"
    by blast
  then obtain c' where c: "m_conn m' = Some c'" by blast
  have e: "dispatcher env (b\<lparr>bytes := frames env msgs @ rest\<rparr>) m
      = dispatcher env (b\<lparr>bytes := rest\<rparr>) m'" for rest
    using k [rule_format, of rest] h by auto
  have t: "dispatcher env (b\<lparr>bytes := frames env msgs @ tail\<rparr>) m = Some (b\<lparr>bytes := tail\<rparr>, m')"
    if "length tail < header_size
      \<or> (\<exists>rest msg. rest \<noteq> [] \<and> tail @ rest = encode env msg
            \<and> length (SerializeToArray env msg) < 2 ^ 31)" for tail
    using e [of tail] dispatcher_tail [OF that] by simp
  have u: "dispatcher env (b\<lparr>bytes := frames env msgs @ encode env u @ rest\<rparr>) m
      = Some (b\<lparr>bytes := rest\<rparr>, m'\<lparr>m_conn := Some (c'\<lparr>closing := True\<rparr>)\<rparr>)"
    if "\<not> known u \<and> ParseFromArray env (SerializeToArray env u) = u
      \<and> length (SerializeToArray env u) < 2 ^ 31" for u rest
  proof -
    from that have a: "\<not> known u" and r: "ParseFromArray env (SerializeToArray env u) = u"
      and l: "length (SerializeToArray env u) < 2 ^ 31" by simp_all
    from dispatcher_unknown_head [OF a r l c] e [of "encode env u @ rest"] show ?thesis
      by simp
  qed
  from h c t u show ?thesis by blast
qed

theorem dispatcher_drain_witness:
  "dispatcher example_env
     \<lparr>bytes = frames example_env [kDeviceSharingStopRequest, kDeviceSharingStopRequest]
              @ MAGIC @ [0, 0, 0, 0, 0, 0, 0, 2, 0x2A],
      slack = []\<rparr>
     example_paired
   = Some (\<lparr>bytes = MAGIC @ [0, 0, 0, 0, 0, 0, 0, 2, 0x2A], slack = []\<rparr>,
           stopDeviceSharingAux (stopDeviceSharingAux example_paired))
   \<and> dispatcher example_env
     \<lparr>bytes = frames example_env [kDeviceSharingStopRequest, kDeviceSharingStopRequest]
              @ encode example_env PAYLOAD_NOT_SET @ encode example_env kDeviceSharingStopRequest,
      slack = []\<rparr>
     example_paired
   = Some (\<lparr>bytes = encode example_env kDeviceSharingStopRequest, slack = []\<rparr>,
           (stopDeviceSharingAux (stopDeviceSharingAux example_paired))
             \<lparr>m_conn := Some (new_TCP\<lparr>closedCb := Some cb_handleDisconnectedAux,
                                      receivedCb := Some cb_dispatcher, noDelay := True,
                                      keepAlive := Some 20, reading := True,
                                      closing := True\<rparr>)\<rparr>)"
proof -
  let ?msgs = "[kDeviceSharingStopRequest, kDeviceSharingStopRequest]"
  let ?tail = "MAGIC @ [0, 0, 0, 0, 0, 0, 0, 2, 0x2A :: byte]"
  let ?c = "new_TCP\<lparr>closedCb := Some cb_handleDisconnectedAux,
                   receivedCb := Some cb_dispatcher, noDelay := True,
                   keepAlive := Some 20, reading := True\<rparr>"
  let ?rest = "encode example_env kDeviceSharingStopRequest"
  have a: "\<forall>msg \<in> set ?msgs. known msg
      \<and> ParseFromArray example_env (SerializeToArray example_env msg) = msg
      \<and> length (SerializeToArray example_env msg) < 2 ^ 31"
    by (simp add: known_def example_env_def)
  have "[0x00 :: byte] \<noteq> [] \<and> ?tail @ [0x00] = encode example_env kDeviceSharingStopRequest
      \<and> length (SerializeToArray example_env kDeviceSharingStopRequest) < 2 ^ 31"
    by (simp add: example_frame) (simp add: example_env_def)
  then have b: "length ?tail < header_size
      \<or> (\<exists>rest msg. rest \<noteq> [] \<and> ?tail @ rest = encode example_env msg
            \<and> length (SerializeToArray example_env msg) < 2 ^ 31)"
    by blast
  have u: "\<not> known PAYLOAD_NOT_SET
      \<and> ParseFromArray example_env (SerializeToArray example_env PAYLOAD_NOT_SET) = PAYLOAD_NOT_SET
      \<and> length (SerializeToArray example_env PAYLOAD_NOT_SET) < 2 ^ 31"
    by (simp add: known_def example_env_def)
  have c: "m_conn example_paired \<noteq> None"
    by (simp add: example_paired_def)
  from dispatcher_drain [OF a c, of "\<lparr>bytes = [], slack = []\<rparr>"]
  obtain m' c' where h: "handle_each example_env ?msgs example_paired = Some m'"
    and cc: "m_conn m' = Some c'"
    and t: "\<forall>tail. length tail < header_size
              \<or> (\<exists>rest msg. rest \<noteq> [] \<and> tail @ rest = encode example_env msg
                    \<and> length (SerializeToArray example_env msg) < 2 ^ 31)
            \<longrightarrow> dispatcher example_env
                  (\<lparr>bytes = [], slack = []\<rparr>\<lparr>bytes := frames example_env ?msgs @ tail\<rparr>)
                  example_paired
                = Some (\<lparr>bytes = [], slack = []\<rparr>\<lparr>bytes := tail\<rparr>, m')"
    and w: "\<forall>u rest. \<not> known u
              \<and> ParseFromArray example_env (SerializeToArray example_env u) = u
              \<and> length (SerializeToArray example_env u) < 2 ^ 31
            \<longrightarrow> dispatcher example_env
                  (\<lparr>bytes = [], slack = []\<rparr>
                     \<lparr>bytes := frames example_env ?msgs @ encode example_env u @ rest\<rparr>)
                  example_paired
                = Some (\<lparr>bytes = [], slack = []\<rparr>\<lparr>bytes := rest\<rparr>,
                        m'\<lparr>m_conn := Some (c'\<lparr>closing := True\<rparr>)\<rparr>)"
    by blast
  from h have m': "m' = stopDeviceSharingAux (stopDeviceSharingAux example_paired)"
    by (simp add: dispatch_def handleDeviceSharingStopRequest_def)
  have "m_conn (stopDeviceSharingAux (stopDeviceSharingAux example_paired)) = Some ?c"
    by (simp add: stopDeviceSharingAux_def example_paired_def)
  with cc m' have c': "c' = ?c" by simp
  from t [rule_format, of ?tail] b
  have d1: "dispatcher example_env \<lparr>bytes = frames example_env ?msgs @ ?tail, slack = []\<rparr>
        example_paired = Some (\<lparr>bytes = ?tail, slack = []\<rparr>, m')"
    by simp
  from w [rule_format, of PAYLOAD_NOT_SET ?rest] u
  have d2: "dispatcher example_env
        \<lparr>bytes = frames example_env ?msgs @ encode example_env PAYLOAD_NOT_SET @ ?rest,
         slack = []\<rparr> example_paired
      = Some (\<lparr>bytes = ?rest, slack = []\<rparr>, m'\<lparr>m_conn := Some (c'\<lparr>closing := True\<rparr>)\<rparr>)"
    by simp
  from d1 d2 show ?thesis unfolding m' c' by simp
qed

text \<open>
  C4 as stated fails: a well-formed frame whose message has no payload set makes the
  dispatcher close the connection and return; the frame behind it stays in the buffer,
  whole, and its handler is not invoked (the Machine is still sharing afterwards).
\<close>

theorem dispatcher_drain_counterexample:
  "dispatcher example_env
     \<lparr>bytes = frames example_env [PAYLOAD_NOT_SET, kDeviceSharingStopRequest], slack = []\<rparr>
     example_paired
   = Some (\<lparr>bytes = encode example_env kDeviceSharingStopRequest, slack = []\<rparr>,
           example_paired
             \<lparr>m_conn := Some (new_TCP\<lparr>closedCb := Some cb_handleDisconnectedAux,
                                      receivedCb := Some cb_dispatcher, noDelay := True,
                                      keepAlive := Some 20, reading := True,
                                      closing := True\<rparr>)\<rparr>)"
proof -
  let ?b = "\<lparr>bytes = [], slack = []\<rparr> :: Buffer"
  let ?rest = "encode example_env kDeviceSharingStopRequest"
  let ?buf = "?b\<lparr>bytes := encode example_env PAYLOAD_NOT_SET @ ?rest\<rparr>"
  have r: "ParseFromArray example_env (SerializeToArray example_env PAYLOAD_NOT_SET) = PAYLOAD_NOT_SET"
    by (simp add: example_env_def)
  have l: "length (SerializeToArray example_env PAYLOAD_NOT_SET) < 2 ^ 31"
    by (simp add: example_env_def)
  have "parseMessage (big_endian example_env) (ParseFromArray example_env) ?buf
      = Some (Inr PAYLOAD_NOT_SET, ?b\<lparr>bytes := ?rest\<rparr>)"
    unfolding encode_def using r l by (rule parseMessage_genMessage)
  then have p: "parseMessage (big_endian example_env) (ParseFromArray example_env)
        \<lparr>bytes = encode example_env PAYLOAD_NOT_SET @ ?rest, slack = []\<rparr>
      = Some (Inr PAYLOAD_NOT_SET, \<lparr>bytes = ?rest, slack = []\<rparr>)"
    by simp
  have s: "header_size \<le> buf_size \<lparr>bytes = encode example_env PAYLOAD_NOT_SET @ ?rest, slack = []\<rparr>"
    using encode_length [of example_env PAYLOAD_NOT_SET] by (simp add: buf_size_def)
  have d: "dispatch example_env PAYLOAD_NOT_SET example_paired
      = Some (False, example_paired
             \<lparr>m_conn := Some (new_TCP\<lparr>closedCb := Some cb_handleDisconnectedAux,
                                      receivedCb := Some cb_dispatcher, noDelay := True,
                                      keepAlive := Some 20, reading := True,
                                      closing := True\<rparr>)\<rparr>)"
    by (simp add: dispatch_def conn_close_def example_paired_def)
  have "dispatcher example_env \<lparr>bytes = encode example_env PAYLOAD_NOT_SET @ ?rest, slack = []\<rparr>
        example_paired
      = Some (\<lparr>bytes = ?rest, slack = []\<rparr>, example_paired
             \<lparr>m_conn := Some (new_TCP\<lparr>closedCb := Some cb_handleDisconnectedAux,
                                      receivedCb := Some cb_dispatcher, noDelay := True,
                                      keepAlive := Some 20, reading := True,
                                      closing := True\<rparr>)\<rparr>)"
    by (subst dispatcher.simps) (simp add: s p d)
  then show ?thesis by (simp add: frames_def)
qed

text \<open>
  C5. On a buffer that holds at least a header: when the decoded message has a payload
  case without a label in the \<open>switch\<close> (among them the message with no payload set),
  the dispatcher closes the connection and returns, with only that frame consumed; when
  the codec reports ILLEGAL it closes the connection; when it reports PARTIAL it returns
  with the Machine and the buffer as they were.
\<close>

theorem dispatcher_closes_or_waits:
  assumes "header_size \<le> buf_size buff" and "m_conn m = Some c"
  shows "(\<forall>msg buff'. parseMessage (big_endian env) (ParseFromArray env) buff = Some (Inr msg, buff')
            \<and> \<not> known msg
          \<longrightarrow> dispatcher env buff m = Some (buff', m\<lparr>m_conn := Some (c\<lparr>closing := True\<rparr>)\<rparr>))
    \<and> (parseMessage (big_endian env) (ParseFromArray env) buff = Some (Inl ILLEGAL_MESSAGE, buff)
        \<longrightarrow> dispatcher env buff m = Some (buff, m\<lparr>m_conn := Some (c\<lparr>closing := True\<rparr>)\<rparr>))
    \<and> (parseMessage (big_endian env) (ParseFromArray env) buff = Some (Inl PARTIAL_MESSAGE, buff)
        \<longrightarrow> dispatcher env buff m = Some (buff, m))
    \<and> \<not> known PAYLOAD_NOT_SET"
  using assms
  by (subst (1 2 3) dispatcher.simps)
    (simp add: dispatch_unknown conn_close_def known_def)

theorem dispatcher_closes_or_waits_witness:
  "dispatcher example_env
     \<lparr>bytes = encode example_env PAYLOAD_NOT_SET @ encode example_env kDeviceSharingStopRequest,
      slack = []\<rparr> example_paired
   = Some (\<lparr>bytes = encode example_env kDeviceSharingStopRequest, slack = []\<rparr>,
           example_paired
             \<lparr>m_conn := Some (new_TCP\<lparr>closedCb := Some cb_handleDisconnectedAux,
                                      receivedCb := Some cb_dispatcher, noDelay := True,
                                      keepAlive := Some 20, reading := True,
                                      closing := True\<rparr>)\<rparr>)
   \<and> dispatcher example_env
       \<lparr>bytes = [0x44, 0x44, 0x45, 0x43, 0x50, 0x52, 0x54, 0x21, 0, 0, 0, 0, 0, 0, 0, 0],
        slack = []\<rparr> example_paired
     = Some (\<lparr>bytes = [0x44, 0x44, 0x45, 0x43, 0x50, 0x52, 0x54, 0x21, 0, 0, 0, 0, 0, 0, 0, 0],
              slack = []\<rparr>,
             example_paired
               \<lparr>m_conn := Some (new_TCP\<lparr>closedCb := Some cb_handleDisconnectedAux,
                                        receivedCb := Some cb_dispatcher, noDelay := True,
                                        keepAlive := Some 20, reading := True,
                                        closing := True\<rparr>)\<rparr>)
   \<and> dispatcher example_env
       \<lparr>bytes = MAGIC @ [0, 0, 0, 0, 0, 0, 0, 2, 0x2A], slack = []\<rparr> example_paired
     = Some (\<lparr>bytes = MAGIC @ [0, 0, 0, 0, 0, 0, 0, 2, 0x2A], slack = []\<rparr>, example_paired)"
proof -
  let ?c = "new_TCP\<lparr>closedCb := Some cb_handleDisconnectedAux,
                   receivedCb := Some cb_dispatcher, noDelay := True,
                   keepAlive := Some 20, reading := True\<rparr>"
  let ?rest = "encode example_env kDeviceSharingStopRequest"
  let ?b1 = "\<lparr>bytes = encode example_env PAYLOAD_NOT_SET @ ?rest, slack = []\<rparr>"
  let ?b2 = "\<lparr>bytes = [0x44, 0x44, 0x45, 0x43, 0x50, 0x52, 0x54, 0x21, 0, 0, 0, 0, 0, 0, 0, 0 :: byte],
             slack = []\<rparr>"
  let ?b3 = "\<lparr>bytes = MAGIC @ [0, 0, 0, 0, 0, 0, 0, 2, 0x2A :: byte], slack = []\<rparr>"
  have c: "m_conn example_paired = Some ?c"
    by (simp add: example_paired_def)
  have s1: "header_size \<le> buf_size ?b1"
    using encode_length [of example_env PAYLOAD_NOT_SET] by (simp add: buf_size_def)
  have s2: "header_size \<le> buf_size ?b2"
    by (simp add: buf_size_def header_size_def)
  have s3: "header_size \<le> buf_size ?b3"
    by (simp add: buf_size_def header_size_def MAGIC_def)
  have r: "ParseFromArray example_env (SerializeToArray example_env PAYLOAD_NOT_SET) = PAYLOAD_NOT_SET"
    by (simp add: example_env_def)
  have l: "length (SerializeToArray example_env PAYLOAD_NOT_SET) < 2 ^ 31"
    by (simp add: example_env_def)
  have "parseMessage (big_endian example_env) (ParseFromArray example_env)
        (\<lparr>bytes = [], slack = []\<rparr>\<lparr>bytes := encode example_env PAYLOAD_NOT_SET @ ?rest\<rparr>)
      = Some (Inr PAYLOAD_NOT_SET, \<lparr>bytes = [], slack = []\<rparr>\<lparr>bytes := ?rest\<rparr>)"
    unfolding encode_def using r l by (rule parseMessage_genMessage)
  then have p1: "parseMessage (big_endian example_env) (ParseFromArray example_env) ?b1
      = Some (Inr PAYLOAD_NOT_SET, \<lparr>bytes = ?rest, slack = []\<rparr>)"
    by simp
  have p2: "parseMessage (big_endian example_env) (ParseFromArray example_env) ?b2
      = Some (Inl ILLEGAL_MESSAGE, ?b2)"
    by (simp add: parseMessage_def Let_def legal_def peak_def buf_data_def MAGIC_def)
  have "parseMessage (big_endian example_env) (ParseFromArray example_env)
        (\<lparr>bytes = [], slack = []\<rparr>\<lparr>bytes := MAGIC @ [0, 0, 0, 0, 0, 0, 0, 2, 0x2A]\<rparr>)
      = Some (Inl PARTIAL_MESSAGE,
          \<lparr>bytes = [], slack = []\<rparr>\<lparr>bytes := MAGIC @ [0, 0, 0, 0, 0, 0, 0, 2, 0x2A]\<rparr>)"
  proof (rule parseMessage_prefix)
    show "(MAGIC @ [0, 0, 0, 0, 0, 0, 0, 2, 0x2A]) @ [0x00]
        = genMessage (big_endian example_env) (SerializeToArray example_env) kDeviceSharingStopRequest"
      using example_frame by (simp add: encode_def)
    show "[0x00 :: byte] \<noteq> []" by simp
    show "length (SerializeToArray example_env kDeviceSharingStopRequest) < 2 ^ 31"
      by (simp add: example_env_def)
    show "header_size \<le> length (MAGIC @ [0, 0, 0, 0, 0, 0, 0, 2, 0x2A :: byte])"
      by (simp add: header_size_def MAGIC_def)
  qed
  then have p3: "parseMessage (big_endian example_env) (ParseFromArray example_env) ?b3
      = Some (Inl PARTIAL_MESSAGE, ?b3)"
    by simp
  have k: "\<not> known PAYLOAD_NOT_SET" by (simp add: known_def)
  note t1 = dispatcher_closes_or_waits [OF s1 c, of example_env]
  note t2 = dispatcher_closes_or_waits [OF s2 c, of example_env]
  note t3 = dispatcher_closes_or_waits [OF s3 c, of example_env]
  have d1: "dispatcher example_env ?b1 example_paired
      = Some (\<lparr>bytes = ?rest, slack = []\<rparr>, example_paired\<lparr>m_conn := Some (?c\<lparr>closing := True\<rparr>)\<rparr>)"
    using t1 p1 k by blast
  have d2: "dispatcher example_env ?b2 example_paired
      = Some (?b2, example_paired\<lparr>m_conn := Some (?c\<lparr>closing := True\<rparr>)\<rparr>)"
    using t2 p2 by blast
  have d3: "dispatcher example_env ?b3 example_paired = Some (?b3, example_paired)"
    using t3 p3 by blast
  show ?thesis using d1 d2 d3 by simp
qed

subsection \<open>Input events\<close>

text \<open>
  C6. \<open>handleInputEventRequest\<close> looks the emittor up by the device type of the request.
  Without one it replies with the serial of the request and \<open>success = false\<close>; with one
  it injects type, code and value and replies with the serial and the success flag that
  the injection returned. In both cases the reply is written to the connection.
\<close>

theorem handleInputEventRequest_replies:
  assumes "m_conn m = Some c"
  shows "(m_inputEmittors m (to_InputDeviceType (ireq_devicetype req)) = None \<longrightarrow>
           handleInputEventRequest env req m =
             Some (emit (ConnWrite (encode env (kInputEventResponse
                      \<lparr>iresp_serial = ireq_serial req, iresp_success = False\<rparr>))) m))
    \<and> (\<forall>em. m_inputEmittors m (to_InputDeviceType (ireq_devicetype req)) = Some em \<longrightarrow>
           handleInputEventRequest env req m =
             Some (emit (ConnWrite (encode env (kInputEventResponse
                      \<lparr>iresp_serial = ireq_serial req, iresp_success = pipe_accepts em\<rparr>)))
                    (emit (EmitEvent (em_type em) (ireq_type req) (ireq_code req) (ireq_value req))
                       m)))"
  using assms
  by (simp add: handleInputEventRequest_def Let_def emitEvent_def conn_write_def)

theorem handleInputEventRequest_replies_witness:
  "handleInputEventRequest example_env
     \<lparr>ireq_serial = 7, ireq_devicetype = 1, ireq_type = 2, ireq_code = 0, ireq_value = 5\<rparr>
     example_paired
   = Some (emit (ConnWrite (encode example_env (kInputEventResponse
                    \<lparr>iresp_serial = 7, iresp_success = True\<rparr>)))
            (emit (EmitEvent MOUSE 2 0 5) example_paired))
   \<and> handleInputEventRequest example_env
     \<lparr>ireq_serial = 8, ireq_devicetype = 9, ireq_type = 2, ireq_code = 0, ireq_value = 5\<rparr>
     example_paired
   = Some (emit (ConnWrite (encode example_env (kInputEventResponse
                    \<lparr>iresp_serial = 8, iresp_success = False\<rparr>)))
            example_paired)"
proof -
  let ?c = "new_TCP\<lparr>closedCb := Some cb_handleDisconnectedAux,
                   receivedCb := Some cb_dispatcher, noDelay := True,
                   keepAlive := Some 20, reading := True\<rparr>"
  let ?r1 = "\<lparr>ireq_serial = 7, ireq_devicetype = 1, ireq_type = 2, ireq_code = 0, ireq_value = 5\<rparr>"
  let ?r2 = "\<lparr>ireq_serial = 8, ireq_devicetype = 9, ireq_type = 2, ireq_code = 0, ireq_value = 5\<rparr>"
  have c: "m_conn example_paired = Some ?c"
    by (simp add: example_paired_def)
  have e1: "m_inputEmittors example_paired (to_InputDeviceType (ireq_devicetype ?r1))
      = Some \<lparr>em_type = MOUSE, pipe_accepts = True\<rparr>"
    by (simp add: example_paired_def example_machine_def Machine_ctor_def to_InputDeviceType_def
        KEYBOARD_def MOUSE_def TOUCHPAD_def)
  have e2: "m_inputEmittors example_paired (to_InputDeviceType (ireq_devicetype ?r2)) = None"
    by (simp add: example_paired_def example_machine_def Machine_ctor_def to_InputDeviceType_def
        KEYBOARD_def MOUSE_def TOUCHPAD_def)
  note t1 = handleInputEventRequest_replies [OF c, of ?r1 example_env]
  note t2 = handleInputEventRequest_replies [OF c, of ?r2 example_env]
  show ?thesis using t1 t2 e1 e2 by simp
qed

subsection \<open>File transfer\<close>

lemma handleFsSendFileRequest_no_client:
  "m_fuseClient m = None \<Longrightarrow>
   handleFsSendFileRequest env req m =
     sendMessage env
       (kFsSendFileResponse \<lparr>sresp_serial = sreq_serial req, sresp_accepted = False\<rparr>) m"
  by (simp add: handleFsSendFileRequest_def)

lemma handleFsSendFileRequest_no_process:
  "m_fuseClient m = None \<Longrightarrow> processes (handleFsSendFileRequest env req m) = processes m"
  by (simp add: handleFsSendFileRequest_def sendMessage_def emit_def split: option.split)

lemma handleFsSendFileRequest_client:
  "m_fuseClient m = Some fc \<Longrightarrow>
   handleFsSendFileRequest env req m =
     (sendMessage env
        (kFsSendFileResponse \<lparr>sresp_serial = sreq_serial req, sresp_accepted = True\<rparr>) m)
     \<lparr>processes := processes m @
        [\<lparr>cp_file = ''/bin/cp'', cp_args = [], cp_storagePath = fileStoragePath env,
          cp_serial = sreq_serial req, cp_path = sreq_path req, cp_onExit = True,
          cp_spawned = True\<rparr>]\<rparr>"
  by (simp add: handleFsSendFileRequest_def Let_def sendMessage_def emit_def split: option.split)

lemma copy_onExit_sends_result:
  assumes "i < length (processes m)" and "cp_onExit (processes m ! i)" and "m_conn m = Some c"
  shows "\<exists>m'. copy_onExit env i exit_status m = Some m'
     \<and> effects m' = effects m @
         [ReceivedFilesSystemNtf
            (cp_storagePath (processes m ! i) @ ''/'' @ fileName (cp_path (processes m ! i)))
            (exit_status = 0),
          ConnWrite (encode env (kFsSendFileResult
            \<lparr>sres_serial = cp_serial (processes m ! i), sres_path = cp_path (processes m ! i),
             sres_result = (exit_status = 0)\<rparr>))]"
  using assms
  by (simp add: copy_onExit_def Let_def sendReceivedFilesSystemNtf_def sendMessage_def emit_def)

text \<open>
  C7. With a FuseClient, the request for the path \<open>/x.txt\<close> spawns \<open>/bin/cp\<close> with
  no arguments: the source \<open>mountpoint + path\<close> is computed and the process never
  receives it, nor the receive directory.
\<close>

theorem copy_without_operands:
  "processes (handleFsSendFileRequest example_env \<lparr>sreq_serial = 3, sreq_path = ''/x.txt''\<rparr>
      example_mounted)
   = [\<lparr>cp_file = ''/bin/cp'', cp_args = [], cp_storagePath = ''/home/u/Downloads'',
       cp_serial = 3, cp_path = ''/x.txt'', cp_onExit = True, cp_spawned = True\<rparr>]
   \<and> filePath (m_mountpoint example_mounted) ''/x.txt'' = ''/var/lib/coop/mp/x.txt''"
  by (simp add: handleFsSendFileRequest_def Let_def sendMessage_def emit_def example_mounted_def
      example_paired_def example_machine_def Machine_ctor_def example_env_def filePath_def
      path_append_def)

text \<open>
  The source that lines 511 to 515 compute: the mountpoint itself for an empty request
  path, mountpoint + path for a path that starts with a slash, mountpoint + "/" + path
  for any other. Nothing that the handler does depends on it: with another mountpoint
  the handler leaves the same Machine, but for the mountpoint.
\<close>

lemma filePath_cases:
  "filePath mountpoint path =
     (if path = [] then mountpoint
      else if hd path = CHR ''/'' then mountpoint @ path
      else mountpoint @ ''/'' @ path)"
  by (cases path) (simp_all add: filePath_def)

lemma handleFsSendFileRequest_ignores_source:
  "handleFsSendFileRequest env req (m\<lparr>m_mountpoint := mp\<rparr>)
   = (handleFsSendFileRequest env req m)\<lparr>m_mountpoint := mp\<rparr>"
  by (simp add: handleFsSendFileRequest_def Let_def sendMessage_def emit_def
      split: option.split)

text \<open>
  C10. With a FuseClient and the relative request path \<open>docs/x.txt\<close>, the handler
  computes the source \<open>/var/lib/coop/mp/docs/x.txt\<close>, the mountpoint, a slash and the
  path, and spawns \<open>/bin/cp\<close> without it: the process has no arguments, and the Machine
  the handler leaves is the same, up to the mountpoint field, when the mountpoint is
  another one.
\<close>

theorem copy_source_dropped:
  "filePath (m_mountpoint example_mounted) ''docs/x.txt'' = ''/var/lib/coop/mp/docs/x.txt''
   \<and> map cp_file
       (processes (handleFsSendFileRequest example_env
          \<lparr>sreq_serial = 4, sreq_path = ''docs/x.txt''\<rparr> example_mounted)) = [''/bin/cp'']
   \<and> map cp_args
       (processes (handleFsSendFileRequest example_env
          \<lparr>sreq_serial = 4, sreq_path = ''docs/x.txt''\<rparr> example_mounted)) = [[]]
   \<and> handleFsSendFileRequest example_env \<lparr>sreq_serial = 4, sreq_path = ''docs/x.txt''\<rparr>
       (example_mounted\<lparr>m_mountpoint := ''/elsewhere''\<rparr>)
     = (handleFsSendFileRequest example_env \<lparr>sreq_serial = 4, sreq_path = ''docs/x.txt''\<rparr>
          example_mounted)\<lparr>m_mountpoint := ''/elsewhere''\<rparr>"
  by (simp add: handleFsSendFileRequest_def Let_def sendMessage_def emit_def example_mounted_def
      example_paired_def example_machine_def Machine_ctor_def example_env_def filePath_def
      path_append_def)

subsection \<open>The confirm dialog\<close>

definition pairResponse :: "Env \<Rightarrow> bool \<Rightarrow> Message" where
  "pairResponse env agree =
     kPairResponse \<lparr>presp_key = SCAN_KEY, presp_deviceinfo = localDeviceInfo env,
                    presp_agree = agree\<rparr>"

definition serviceStatus :: "Env \<Rightarrow> Message" where
  "serviceStatus env =
     kServiceOnOffNotification
       \<lparr>sharedclipboardon = isSharedClipboard env, shareddeviceson = isSharedDevices env\<rparr>"



subsection \<open>The two ways to the paired state\<close>

text \<open>
  What the paired state consists of: \<open>m_connected\<close>, the callbacks and options that
  \<open>initConnection\<close> sets on the stream, and whether the two timers are armed.
\<close>

definition paired_view ::
  "Machine \<Rightarrow> bool \<times> (Callback option \<times> Callback option \<times> bool \<times> nat option) option \<times> bool \<times> bool" where
  "paired_view m =
     (m_connected m,
      map_option (\<lambda>c. (closedCb c, receivedCb c, noDelay c, keepAlive c)) (m_conn m),
      armed (m_pingTimer m), armed (m_offlineTimer m))"

text \<open>
  C8. From the same Machine, the outbound path (connect, connected, a PairResponse that
  agrees) and the inbound path (a PairRequest handed over by \<open>onPair\<close>, then the ACCEPT
  byte of the confirm dialog) end in the same paired state: connected, the connection
  initialised, both timers stopped. Both write the same ServiceOnOffNotification, right
  before \<open>handleConnected\<close>.
\<close>

theorem pairing_paths_agree:
  assumes "presp_agree resp"
  shows "\<exists>m1 m2.
      run any_order env [EvConnect, EvConnected, EvMessage (kPairResponse resp)] m = Some m1
    \<and> run any_order env [EvOnPair sock, EvUserConfirm \<lparr>bytes = [ACCEPT], slack = s\<rparr>] m = Some m2
    \<and> paired_view m1 =
        (True, Some (Some cb_handleDisconnectedAux, Some cb_dispatcher, True, Some 20), False, False)
    \<and> paired_view m2 = paired_view m1
    \<and> effects m1 = effects m @
        [ConnConnect (m_ip m) (m_port m),
         ConnWrite (encode env (kPairRequest
           \<lparr>preq_key = SCAN_KEY, preq_deviceinfo = localDeviceInfo env\<rparr>)),
         DBusUpdateConnected True, ConnWrite (encode env (serviceStatus env)), HandleConnected]
    \<and> effects m2 = effects m @
        [ConnWrite (encode env (pairResponse env True)),
         DBusUpdateConnected True, ConnWrite (encode env (serviceStatus env)), HandleConnected]"
  using assms
  by (simp add: any_order_def step_def connect_def new_TCP_def onConnected_def
      initConnection_def Let_def dispatch_def handlePairResponseAux_def
      sendServiceStatusNotification_def sendMessage_def emit_def onPair_def
      receivedUserConfirm_def buf_size_def buf_data_def paired_view_def timer_stop_def
      serviceStatus_def pairResponse_def)

theorem pairing_paths_agree_witness:
  "\<exists>m1 m2.
      run any_order example_env
        [EvConnect, EvConnected,
         EvMessage (kPairResponse \<lparr>presp_key = SCAN_KEY, presp_deviceinfo = example_peer,
                                  presp_agree = True\<rparr>)] example_machine = Some m1
    \<and> run any_order example_env
        [EvOnPair (new_TCP\<lparr>reading := True\<rparr>), EvUserConfirm \<lparr>bytes = [ACCEPT], slack = []\<rparr>]
        example_machine = Some m2
    \<and> paired_view m1 =
        (True, Some (Some cb_handleDisconnectedAux, Some cb_dispatcher, True, Some 20), False, False)
    \<and> paired_view m2 = paired_view m1
    \<and> last (butlast (effects m1)) = ConnWrite (encode example_env (serviceStatus example_env))
    \<and> last (butlast (effects m2)) = ConnWrite (encode example_env (serviceStatus example_env))"
proof -
  let ?resp = "\<lparr>presp_key = SCAN_KEY, presp_deviceinfo = example_peer, presp_agree = True\<rparr>"
  have a: "presp_agree ?resp" by simp
  from pairing_paths_agree [OF a, of example_env example_machine "new_TCP\<lparr>reading := True\<rparr>" "[]"]
  obtain m1 m2 where
    "run any_order example_env [EvConnect, EvConnected, EvMessage (kPairResponse ?resp)]
       example_machine = Some m1"
    "run any_order example_env
       [EvOnPair (new_TCP\<lparr>reading := True\<rparr>), EvUserConfirm \<lparr>bytes = [ACCEPT], slack = []\<rparr>]
       example_machine = Some m2"
    "paired_view m1 =
        (True, Some (Some cb_handleDisconnectedAux, Some cb_dispatcher, True, Some 20), False, False)"
    "paired_view m2 = paired_view m1"
    "effects m1 = effects example_machine @
        [ConnConnect (m_ip example_machine) (m_port example_machine),
         ConnWrite (encode example_env (kPairRequest
           \<lparr>preq_key = SCAN_KEY, preq_deviceinfo = localDeviceInfo example_env\<rparr>)),
         DBusUpdateConnected True, ConnWrite (encode example_env (serviceStatus example_env)),
         HandleConnected]"
    "effects m2 = effects example_machine @
        [ConnWrite (encode example_env (pairResponse example_env True)),
         DBusUpdateConnected True, ConnWrite (encode example_env (serviceStatus example_env)),
         HandleConnected]"
    by blast
  then show ?thesis
    by (intro exI [of _ m1] exI [of _ m2]) (simp add: butlast_append)
qed

end
